theory Spec2Isabelle
  imports Main "HOL-Library.Sublist" "HOL-Library.AList"
begin

section \<open>Timer: decomposition of the elapsed time (src/components/Timer.tsx)\<close>

text \<open>
  \<open>calculateTime\<close> reads the clock (\<open>new Date()\<close>) and the \<open>startDate\<close> prop, both through
  \<open>getTime()\<close>. The time value of a \<open>Date\<close> is a whole number of milliseconds since the
  epoch, of magnitude at most 8.64e15, or \<open>NaN\<close>: \<open>Date t\<close> is \<open>new Date(t)\<close>, an Invalid
  Date when \<open>t\<close> is out of that range, and \<open>Invalid_Date\<close> is a date built from \<open>NaN\<close> or
  from text that does not parse. A \<open>number\<close> is what the timer computes with: \<open>NaN\<close> or
  an integer.
\<close>

datatype number = NaN | Num int

datatype Date = Invalid_Date | Date int

definition getTime :: "Date \<Rightarrow> number" where
  "getTime d =
     (case d of
        Invalid_Date \<Rightarrow> NaN
      | Date t \<Rightarrow> if \<bar>t\<bar> \<le> 8640000000000000 then Num t else NaN)"

text \<open>
  \<open>now.getTime() - startDate.getTime()\<close> on two time values, in double precision. Both
  are integers below \<open>2^53\<close> in magnitude and their difference is below \<open>2^54\<close>. A double
  holds every integer up to \<open>2^53 = 9007199254740992\<close> and, from there to \<open>2^54\<close>, the even
  ones: the difference is exact up to \<open>2^53\<close> and beyond it an odd difference is rounded
  to the neighbour with the even significand, the multiple of 4.
\<close>

definition minus_double :: "int \<Rightarrow> int \<Rightarrow> int" where
  "minus_double a b =
     (let x = a - b
      in if \<bar>x\<bar> \<le> 9007199254740992 then x
         else if x mod 4 = 1 then x - 1
         else if x mod 4 = 3 then x + 1
         else x)"

record TimeLeft =
  days :: number
  hours :: number
  minutes :: number
  seconds :: number

text \<open>The component state after one run of \<open>calculateTime\<close>: \<open>isFuture\<close> and \<open>timeLeft\<close>.\<close>

record TimerState =
  isFuture :: bool
  timeLeft :: TimeLeft

text \<open>
  With a \<open>NaN\<close> time value \<open>diff\<close> is \<open>NaN\<close>: \<open>diff < 0\<close> is false and \<open>Math.abs\<close>, \<open>%\<close>, \<open>/\<close>
  and \<open>Math.floor\<close> all give \<open>NaN\<close>. Otherwise \<open>absDiff\<close> is a non-negative integer that a
  double holds, \<open>%\<close> is exact, and \<open>Math.floor (_ / _)\<close> of it by the constants below is
  the integer quotient (the quotient in double precision is off by less than the
  distance of the true quotient to the next integer), so they are \<open>mod\<close> and \<open>div\<close>.
\<close>

definition calculateTime :: "Date \<Rightarrow> Date \<Rightarrow> TimerState" where
  "calculateTime now startDate =
     (case getTime now of
        NaN \<Rightarrow>
          \<lparr>isFuture = False,
           timeLeft = \<lparr>days = NaN, hours = NaN, minutes = NaN, seconds = NaN\<rparr>\<rparr>
      | Num a \<Rightarrow>
          (case getTime startDate of
             NaN \<Rightarrow>
               \<lparr>isFuture = False,
                timeLeft = \<lparr>days = NaN, hours = NaN, minutes = NaN, seconds = NaN\<rparr>\<rparr>
           | Num b \<Rightarrow>
               (let diff = minus_double a b;
                    isDateInFuture = diff < 0;
                    absDiff = \<bar>diff\<bar>;
                    d = absDiff div (1000 * 60 * 60 * 24);
                    h = (absDiff mod (1000 * 60 * 60 * 24)) div (1000 * 60 * 60);
                    m = (absDiff mod (1000 * 60 * 60)) div (1000 * 60);
                    s = (absDiff mod (1000 * 60)) div 1000
                in \<lparr>isFuture = isDateInFuture,
                    timeLeft = \<lparr>days = Num d, hours = Num h, minutes = Num m,
                                seconds = Num s\<rparr>\<rparr>)))"

text \<open>
  The heading of the rendered component: one of two fixed captions, chosen by
  \<open>isFuture\<close> (the countdown caption when the start date lies ahead, the elapsed
  caption otherwise). The four numbers rendered below it are the fields of \<open>timeLeft\<close>.
\<close>

datatype heading = CountdownHeading | ElapsedHeading

definition render_heading :: "TimerState \<Rightarrow> heading" where
  "render_heading st = (if isFuture st then CountdownHeading else ElapsedHeading)"

definition render_numbers :: "TimerState \<Rightarrow> number \<times> number \<times> number \<times> number" where
  "render_numbers st =
     (days (timeLeft st), hours (timeLeft st), minutes (timeLeft st), seconds (timeLeft st))"

section \<open>Data model (src/types.ts)\<close>

datatype media_type = Image | Video

record Memory =
  m_id :: string
  m_type :: media_type
  m_url :: string
  m_caption :: "string option"
  m_date :: string

datatype category = Travel | Food | Activity | Life

record TodoItem =
  t_id :: string
  t_text :: string
  t_completed :: bool
  t_notes :: "string option"
  t_category :: "category option"

section \<open>Failures of the external services\<close>

text \<open>
  The code talks to three services it does not implement: IndexedDB, the Firebase
  Realtime Database and Firebase Storage. Whether their calls fail is not decided by the
  code, so every operation below takes the \<open>conditions\<close> it runs under: which calls
  throw (or reject) for the duration of that operation. \<open>upload_url\<close> gives, for a
  storage path, the download URL the upload ends with, or \<open>None\<close> when
  \<open>uploadString\<close> or \<open>getDownloadURL\<close> throws. The errors met are those of the two
  stores and the \<open>TypeError\<close> of calling what is not a function.
\<close>

datatype error = FirebaseError | IdbError | TypeError

record conditions =
  idb_rejects :: bool
  get_throws :: bool
  set_throws :: bool
  remove_throws :: bool
  onValue_throws :: bool
  upload_url :: "string \<Rightarrow> string option"

section \<open>Remote store adapter (src/utils/firebase.ts)\<close>

text \<open>
  The module state: \<open>isInitialized\<close>, and whether \<open>database\<close> and \<open>storage\<close> hold a
  handle (\<open>True\<close>) or \<open>null\<close> (\<open>False\<close>).
\<close>

record firebase_module =
  isInitialized :: bool
  database :: bool
  storage :: bool

definition isFirebaseReady :: "firebase_module \<Rightarrow> bool" where
  "isFirebaseReady fb = (isInitialized fb \<and> database fb)"

definition getSharedPath :: "string \<Rightarrow> string" where
  "getSharedPath path = ''shared/'' @ path"

text \<open>
  The hosted database holds one value per location; a location with no entry has no
  data (\<open>snapshot.exists()\<close> is false and the adapter hands out \<open>null\<close>, here \<open>None\<close>).
  The values are of type \<open>'v\<close>: the callers cast what they read to the type they wrote.
  The four SDK calls the adapter makes, each of which may throw:
\<close>

type_synonym 'v rtdb = "(string \<times> 'v) list"

definition sdk_get :: "conditions \<Rightarrow> string \<Rightarrow> 'v rtdb \<Rightarrow> error + 'v option" where
  "sdk_get c loc db = (if get_throws c then Inl FirebaseError else Inr (map_of db loc))"

definition sdk_set :: "conditions \<Rightarrow> string \<Rightarrow> 'v \<Rightarrow> 'v rtdb \<Rightarrow> error + 'v rtdb" where
  "sdk_set c loc v db =
     (if set_throws c then Inl FirebaseError else Inr (AList.update loc v db))"

definition sdk_remove :: "conditions \<Rightarrow> string \<Rightarrow> 'v rtdb \<Rightarrow> error + 'v rtdb" where
  "sdk_remove c loc db =
     (if remove_throws c then Inl FirebaseError else Inr (AList.delete loc db))"

text \<open>\<open>onValue\<close> attaches a callback at a location; \<open>ls\<close> lists the locations listened to.\<close>

definition sdk_onValue :: "conditions \<Rightarrow> string \<Rightarrow> string list \<Rightarrow> error + string list" where
  "sdk_onValue c loc ls = (if onValue_throws c then Inl FirebaseError else Inr (ls @ [loc]))"

text \<open>
  \<open>firebaseSync\<close>. Each operation returns \<open>Inl\<close> where the source would reject or throw
  to its caller, and \<open>Inr\<close> with its result (and the database or listener list after
  it) otherwise. The \<open>catch\<close> blocks log and fall through.
\<close>

definition firebaseSync_save ::
    "conditions \<Rightarrow> firebase_module \<Rightarrow> string \<Rightarrow> 'v \<Rightarrow> 'v rtdb \<Rightarrow> error + 'v rtdb" where
  "firebaseSync_save c fb path v db =
     (if \<not> isFirebaseReady fb then Inr db
      else case sdk_set c (getSharedPath path) v db of
             Inr db' \<Rightarrow> Inr db'
           | Inl err \<Rightarrow> Inr db)"

definition firebaseSync_get ::
    "conditions \<Rightarrow> firebase_module \<Rightarrow> string \<Rightarrow> 'v rtdb \<Rightarrow> error + 'v option" where
  "firebaseSync_get c fb path db =
     (if \<not> isFirebaseReady fb then Inr None
      else case sdk_get c (getSharedPath path) db of
             Inr v \<Rightarrow> Inr v
           | Inl err \<Rightarrow> Inr None)"

definition firebaseSync_delete ::
    "conditions \<Rightarrow> firebase_module \<Rightarrow> string \<Rightarrow> 'v rtdb \<Rightarrow> error + 'v rtdb" where
  "firebaseSync_delete c fb path db =
     (if \<not> isFirebaseReady fb then Inr db
      else case sdk_remove c (getSharedPath path) db of
             Inr db' \<Rightarrow> Inr db'
           | Inl err \<Rightarrow> Inr db)"

text \<open>
  The function \<open>listen\<close> returns: either \<open>() => {}\<close> (\<open>NoOp\<close>) or \<open>() => off(dbRef)\<close>
  (\<open>Off\<close> of the location). \<open>run_unsubscribe\<close> is what calling it does to the listeners.
\<close>

datatype unsubscribe = NoOp | Off string

definition run_unsubscribe :: "unsubscribe \<Rightarrow> string list \<Rightarrow> string list" where
  "run_unsubscribe u ls = (case u of NoOp \<Rightarrow> ls | Off loc \<Rightarrow> removeAll loc ls)"

definition firebaseSync_listen ::
    "conditions \<Rightarrow> firebase_module \<Rightarrow> string \<Rightarrow> string list \<Rightarrow> error + unsubscribe \<times> string list" where
  "firebaseSync_listen c fb path ls =
     (if \<not> isFirebaseReady fb then Inr (NoOp, ls)
      else case sdk_onValue c (getSharedPath path) ls of
             Inr ls' \<Rightarrow> Inr (Off (getSharedPath path), ls')
           | Inl err \<Rightarrow> Inr (NoOp, ls))"

subsection \<open>Blob offload: \<open>firebaseStorage.uploadMedia\<close>\<close>

definition extension :: "media_type \<Rightarrow> string \<Rightarrow> string" where
  "extension ty base64Data =
     (case ty of
        Image \<Rightarrow>
          (if prefix ''data:image/jpeg'' base64Data then ''jpg''
           else if prefix ''data:image/png'' base64Data then ''png''
           else if prefix ''data:image/gif'' base64Data then ''gif''
           else ''jpg'')
      | Video \<Rightarrow> (if prefix ''data:video/mp4'' base64Data then ''mp4'' else ''mp4''))"

definition storage_path :: "string \<Rightarrow> string \<Rightarrow> string" where
  "storage_path memoryId ext = ''memories/'' @ memoryId @ ''.'' @ ext"

definition uploadMedia ::
    "conditions \<Rightarrow> firebase_module \<Rightarrow> string \<Rightarrow> string \<Rightarrow> media_type \<Rightarrow> string option" where
  "uploadMedia c fb base64Data memoryId ty =
     (if \<not> isFirebaseReady fb \<or> \<not> storage fb then None
      else upload_url c (storage_path memoryId (extension ty base64Data)))"

section \<open>Local store (IndexedDB object stores keyed by \<open>id\<close>)\<close>

text \<open>
  \<open>initDB\<close> creates the object stores \<open>memories\<close> and \<open>todos\<close> with \<open>keyPath: 'id'\<close>:
  the key of a record is its \<open>id\<close> field and a store holds at most one record per key.
  A store is the list of its records; \<open>store.put\<close> replaces the record with the same
  key or adds the record, \<open>store.delete\<close> removes the record with the key, and
  \<open>store.getAll\<close> lists the records. (IndexedDB lists them by ascending key; the list
  here keeps them in the order they were first put, and no property below depends on
  the order.) \<open>key\<close> is the key path. \<open>performTransaction\<close> runs one such request in
  a transaction of its own; it rejects, and the store stays as it was, under the
  condition \<open>idb_rejects\<close>.
\<close>

definition STORE_MEMORIES :: string where "STORE_MEMORIES = ''memories''"
definition STORE_TODOS :: string where "STORE_TODOS = ''todos''"
definition STORE_SETTINGS :: string where "STORE_SETTINGS = ''settings''"

fun idb_put :: "('a \<Rightarrow> string) \<Rightarrow> 'a \<Rightarrow> 'a list \<Rightarrow> 'a list" where
  "idb_put key x [] = [x]"
| "idb_put key x (y # ys) = (if key y = key x then x # ys else y # idb_put key x ys)"

definition idb_delete :: "('a \<Rightarrow> string) \<Rightarrow> string \<Rightarrow> 'a list \<Rightarrow> 'a list" where
  "idb_delete key k store = filter (\<lambda>y. key y \<noteq> k) store"

text \<open>
  \<open>Promise.all(items.map(x => performTransaction(.., store => store.put(x))))\<close> and its
  sibling with \<open>store.delete(x.id)\<close>: one transaction per item, each on one record; the
  transactions are queued in the order of the list.
\<close>

definition put_all :: "('a \<Rightarrow> string) \<Rightarrow> 'a list \<Rightarrow> 'a list \<Rightarrow> 'a list" where
  "put_all key items store = fold (idb_put key) items store"

definition delete_all :: "('a \<Rightarrow> string) \<Rightarrow> 'a list \<Rightarrow> 'a list \<Rightarrow> 'a list" where
  "delete_all key items store = fold (\<lambda>x. idb_delete key (key x)) items store"

section \<open>Reconciliation layer (the current \<open>utils/db.ts\<close>, src/unnamed/part_002)\<close>

text \<open>
  The state the operations act on: the Firebase module state, the local object stores
  (the \<open>settings\<close> store is keyed by \<open>key\<close>), the hosted database (one component
  per type of value stored: a collection is a JavaScript object from item id to item,
  here an association list) and the \<open>trace\<close>
  of the calls made so far to the collaborators, oldest first: the local transactions,
  the adapter calls, the upload and the change callbacks.
\<close>

type_synonym 'a collection = "(string \<times> 'a) list"

datatype event =
    IdbGetAll string
  | IdbPut string string
  | IdbDelete string string
  | SyncGet string
  | SyncSave string
  | UploadMedia string
  | OnMemoriesChange "Memory list"
  | OnTodosChange "TodoItem list"

record Setting =
  s_key :: string
  s_value :: string

record world =
  firebase :: firebase_module
  idb_memories :: "Memory list"
  idb_todos :: "TodoItem list"
  idb_settings :: "Setting list"
  rtdb_memories :: "Memory collection rtdb"
  rtdb_todos :: "TodoItem collection rtdb"
  rtdb_settings :: "string rtdb"
  trace :: "event list"

definition log :: "event list \<Rightarrow> world \<Rightarrow> world" where
  "log es w = w\<lparr>trace := trace w @ es\<rparr>"

text \<open>\<open>new Map(pairs)\<close>: a later pair with the same key overwrites an earlier one.\<close>

definition js_Map :: "('k \<times> 'v) list \<Rightarrow> 'k \<rightharpoonup> 'v" where
  "js_Map pairs = map_of (rev pairs)"

text \<open>
  \<open>obj[key] = item\<close> on a collection read from the database, or on \<open>{}\<close>: the entry
  under \<open>key\<close> is set to the item. The key \<open>__proto__\<close> is the exception: an object
  inherits it as an accessor from \<open>Object.prototype\<close>, so unless the object has an entry
  of its own under that name, the assignment makes the item the prototype of the
  object and adds no entry, and the collection written back has none for the item.
\<close>

definition js_assign :: "string \<Rightarrow> 'a \<Rightarrow> 'a collection \<Rightarrow> 'a collection" where
  "js_assign k v obj =
     (if k = ''__proto__'' \<and> map_of obj k = None then obj else AList.update k v obj)"

text \<open>The body of \<open>firebaseMemories.map(fbMemory => ...)\<close>.\<close>

definition enhance :: "(string \<rightharpoonup> Memory) \<Rightarrow> Memory \<Rightarrow> Memory" where
  "enhance localMap fbMemory =
     (case localMap (m_id fbMemory) of
        Some localMemory \<Rightarrow>
          if prefix ''data:'' (m_url localMemory)
          then fbMemory\<lparr>m_url := m_url localMemory\<rparr>
          else fbMemory
      | None \<Rightarrow> fbMemory)"

subsection \<open>Memories\<close>

text \<open>The last statement of \<open>getAllMemories\<close>: the local store alone.\<close>

definition local_getAllMemories :: "conditions \<Rightarrow> world \<Rightarrow> (error + Memory list) \<times> world" where
  "local_getAllMemories c w =
     (if idb_rejects c then Inl IdbError else Inr (idb_memories w),
      log [IdbGetAll STORE_MEMORIES] w)"

text \<open>
  \<open>getAllMemories\<close>. A local transaction that rejects inside the \<open>try\<close> block is caught
  and the function falls through to its last statement.
\<close>

definition getAllMemories :: "conditions \<Rightarrow> world \<Rightarrow> (error + Memory list) \<times> world" where
  "getAllMemories c w =
     (if isFirebaseReady (firebase w) then
        (case firebaseSync_get c (firebase w) ''memories'' (rtdb_memories w) of
           Inl err \<Rightarrow> local_getAllMemories c (log [SyncGet ''memories''] w)
         | Inr firebaseData \<Rightarrow>
             (let w1 = log [SyncGet ''memories''] w in
              case firebaseData of
                Some (d # ds) \<Rightarrow>
                  (if idb_rejects c
                   then local_getAllMemories c (log [IdbGetAll STORE_MEMORIES] w1)
                   else
                     (let firebaseMemories = map snd (d # ds);
                          localMemories = idb_memories w1;
                          localMap = js_Map (map (\<lambda>m. (m_id m, m)) localMemories);
                          enhancedMemories = map (enhance localMap) firebaseMemories;
                          stored = put_all m_id enhancedMemories localMemories;
                          firebaseIds = set (map m_id firebaseMemories);
                          localOnlyMemories = filter (\<lambda>m. m_id m \<notin> firebaseIds) localMemories;
                          pruned = delete_all m_id localOnlyMemories stored
                      in (Inr enhancedMemories,
                          log ([IdbGetAll STORE_MEMORIES]
                               @ map (\<lambda>m. IdbPut STORE_MEMORIES (m_id m)) enhancedMemories
                               @ map (\<lambda>m. IdbDelete STORE_MEMORIES (m_id m)) localOnlyMemories)
                            (w1\<lparr>idb_memories := pruned\<rparr>))))
              | _ \<Rightarrow>
                  (if idb_rejects c
                   then local_getAllMemories c (log [IdbGetAll STORE_MEMORIES] w1)
                   else
                     (let localMemories = idb_memories w1
                      in (Inr [],
                          log ([IdbGetAll STORE_MEMORIES]
                               @ map (\<lambda>m. IdbDelete STORE_MEMORIES (m_id m)) localMemories)
                            (w1\<lparr>idb_memories := delete_all m_id localMemories localMemories\<rparr>))))))
      else local_getAllMemories c w)"

text \<open>
  The remote half of \<open>saveMemory\<close>, from \<open>firebaseSync.get\<close> on: read the collection,
  assign this memory under its id, write the collection back.
\<close>

definition sync_memory :: "conditions \<Rightarrow> string \<Rightarrow> Memory \<Rightarrow> world \<Rightarrow> world" where
  "sync_memory c memory_id memoryForFirebase w =
     (case firebaseSync_get c (firebase w) ''memories'' (rtdb_memories w) of
        Inl err \<Rightarrow> log [SyncGet ''memories''] w
      | Inr firebaseData \<Rightarrow>
          (let memoriesObj = (case firebaseData of Some obj \<Rightarrow> obj | None \<Rightarrow> []);
               memoriesObj' = js_assign memory_id memoryForFirebase memoriesObj
           in case firebaseSync_save c (firebase w) ''memories'' memoriesObj' (rtdb_memories w) of
                Inl err \<Rightarrow> log [SyncGet ''memories'', SyncSave ''memories''] w
              | Inr db' \<Rightarrow>
                  log [SyncGet ''memories'', SyncSave ''memories''] (w\<lparr>rtdb_memories := db'\<rparr>)))"

text \<open>
  \<open>saveMemory\<close> resolves with the key \<open>store.put\<close> returns, the \<open>id\<close> of the record, or
  rejects with the error of the local transaction. \<open>if (storageUrl)\<close> is false for
  \<open>null\<close> and for the empty string.
\<close>

definition saveMemory :: "conditions \<Rightarrow> Memory \<Rightarrow> world \<Rightarrow> (error + string) \<times> world" where
  "saveMemory c memory w =
     (if idb_rejects c then (Inl IdbError, log [IdbPut STORE_MEMORIES (m_id memory)] w)
      else
        (let result = m_id memory;
             w1 = log [IdbPut STORE_MEMORIES (m_id memory)]
                    (w\<lparr>idb_memories := idb_put m_id memory (idb_memories w)\<rparr>)
         in if isFirebaseReady (firebase w1) then
              (if prefix ''data:'' (m_url memory) then
                 (let w2 = log [UploadMedia (m_id memory)] w1 in
                  case uploadMedia c (firebase w1) (m_url memory) (m_id memory) (m_type memory) of
                    Some storageUrl \<Rightarrow>
                      if storageUrl \<noteq> []
                      then (Inr result, sync_memory c (m_id memory) (memory\<lparr>m_url := storageUrl\<rparr>) w2)
                      else (Inr result, w2)
                  | None \<Rightarrow> (Inr result, w2))
               else (Inr result, sync_memory c (m_id memory) memory w1))
            else (Inr result, w1)))"

text \<open>The remote half of \<open>deleteMemory\<close>.\<close>

definition unsync_memory :: "conditions \<Rightarrow> string \<Rightarrow> world \<Rightarrow> world" where
  "unsync_memory c k w =
     (case firebaseSync_get c (firebase w) ''memories'' (rtdb_memories w) of
        Inl err \<Rightarrow> log [SyncGet ''memories''] w
      | Inr firebaseData \<Rightarrow>
          (let memoriesObj = (case firebaseData of Some obj \<Rightarrow> obj | None \<Rightarrow> []);
               memoriesObj' = AList.delete k memoriesObj
           in case firebaseSync_save c (firebase w) ''memories'' memoriesObj' (rtdb_memories w) of
                Inl err \<Rightarrow> log [SyncGet ''memories'', SyncSave ''memories''] w
              | Inr db' \<Rightarrow>
                  log [SyncGet ''memories'', SyncSave ''memories''] (w\<lparr>rtdb_memories := db'\<rparr>)))"

definition deleteMemory :: "conditions \<Rightarrow> string \<Rightarrow> world \<Rightarrow> (error + unit) \<times> world" where
  "deleteMemory c k w =
     (if idb_rejects c then (Inl IdbError, log [IdbDelete STORE_MEMORIES k] w)
      else
        (let w1 = log [IdbDelete STORE_MEMORIES k]
                    (w\<lparr>idb_memories := idb_delete m_id k (idb_memories w)\<rparr>)
         in if isFirebaseReady (firebase w1) then (Inr (), unsync_memory c k w1)
            else (Inr (), w1)))"

subsection \<open>Todos\<close>

definition local_getAllTodos :: "conditions \<Rightarrow> world \<Rightarrow> (error + TodoItem list) \<times> world" where
  "local_getAllTodos c w =
     (if idb_rejects c then Inl IdbError else Inr (idb_todos w),
      log [IdbGetAll STORE_TODOS] w)"

text \<open>
  \<open>getAllTodos\<close> writes the remote items first and reads the local store after that,
  to find the records to remove.
\<close>

definition getAllTodos :: "conditions \<Rightarrow> world \<Rightarrow> (error + TodoItem list) \<times> world" where
  "getAllTodos c w =
     (if isFirebaseReady (firebase w) then
        (case firebaseSync_get c (firebase w) ''todos'' (rtdb_todos w) of
           Inl err \<Rightarrow> local_getAllTodos c (log [SyncGet ''todos''] w)
         | Inr firebaseData \<Rightarrow>
             (let w1 = log [SyncGet ''todos''] w in
              case firebaseData of
                Some (d # ds) \<Rightarrow>
                  (let firebaseTodos = map snd (d # ds) in
                   if idb_rejects c
                   then local_getAllTodos c
                          (log (map (\<lambda>t. IdbPut STORE_TODOS (t_id t)) firebaseTodos) w1)
                   else
                     (let stored = put_all t_id firebaseTodos (idb_todos w1);
                          localTodos = stored;
                          firebaseIds = set (map t_id firebaseTodos);
                          localOnlyTodos = filter (\<lambda>t. t_id t \<notin> firebaseIds) localTodos;
                          pruned = delete_all t_id localOnlyTodos stored
                      in (Inr firebaseTodos,
                          log (map (\<lambda>t. IdbPut STORE_TODOS (t_id t)) firebaseTodos
                               @ [IdbGetAll STORE_TODOS]
                               @ map (\<lambda>t. IdbDelete STORE_TODOS (t_id t)) localOnlyTodos)
                            (w1\<lparr>idb_todos := pruned\<rparr>))))
              | _ \<Rightarrow>
                  (if idb_rejects c
                   then local_getAllTodos c (log [IdbGetAll STORE_TODOS] w1)
                   else
                     (let localTodos = idb_todos w1
                      in (Inr [],
                          log ([IdbGetAll STORE_TODOS]
                               @ map (\<lambda>t. IdbDelete STORE_TODOS (t_id t)) localTodos)
                            (w1\<lparr>idb_todos := delete_all t_id localTodos localTodos\<rparr>))))))
      else local_getAllTodos c w)"

definition sync_todo :: "conditions \<Rightarrow> TodoItem \<Rightarrow> world \<Rightarrow> world" where
  "sync_todo c todo w =
     (case firebaseSync_get c (firebase w) ''todos'' (rtdb_todos w) of
        Inl err \<Rightarrow> log [SyncGet ''todos''] w
      | Inr firebaseData \<Rightarrow>
          (let todosObj = (case firebaseData of Some obj \<Rightarrow> obj | None \<Rightarrow> []);
               todosObj' = js_assign (t_id todo) todo todosObj
           in case firebaseSync_save c (firebase w) ''todos'' todosObj' (rtdb_todos w) of
                Inl err \<Rightarrow> log [SyncGet ''todos'', SyncSave ''todos''] w
              | Inr db' \<Rightarrow> log [SyncGet ''todos'', SyncSave ''todos''] (w\<lparr>rtdb_todos := db'\<rparr>)))"

definition saveTodo :: "conditions \<Rightarrow> TodoItem \<Rightarrow> world \<Rightarrow> (error + string) \<times> world" where
  "saveTodo c todo w =
     (if idb_rejects c then (Inl IdbError, log [IdbPut STORE_TODOS (t_id todo)] w)
      else
        (let result = t_id todo;
             w1 = log [IdbPut STORE_TODOS (t_id todo)]
                    (w\<lparr>idb_todos := idb_put t_id todo (idb_todos w)\<rparr>)
         in if isFirebaseReady (firebase w1) then (Inr result, sync_todo c todo w1)
            else (Inr result, w1)))"

definition unsync_todo :: "conditions \<Rightarrow> string \<Rightarrow> world \<Rightarrow> world" where
  "unsync_todo c k w =
     (case firebaseSync_get c (firebase w) ''todos'' (rtdb_todos w) of
        Inl err \<Rightarrow> log [SyncGet ''todos''] w
      | Inr firebaseData \<Rightarrow>
          (let todosObj = (case firebaseData of Some obj \<Rightarrow> obj | None \<Rightarrow> []);
               todosObj' = AList.delete k todosObj
           in case firebaseSync_save c (firebase w) ''todos'' todosObj' (rtdb_todos w) of
                Inl err \<Rightarrow> log [SyncGet ''todos'', SyncSave ''todos''] w
              | Inr db' \<Rightarrow> log [SyncGet ''todos'', SyncSave ''todos''] (w\<lparr>rtdb_todos := db'\<rparr>)))"

definition deleteTodo :: "conditions \<Rightarrow> string \<Rightarrow> world \<Rightarrow> (error + unit) \<times> world" where
  "deleteTodo c k w =
     (if idb_rejects c then (Inl IdbError, log [IdbDelete STORE_TODOS k] w)
      else
        (let w1 = log [IdbDelete STORE_TODOS k]
                    (w\<lparr>idb_todos := idb_delete t_id k (idb_todos w)\<rparr>)
         in if isFirebaseReady (firebase w1) then (Inr (), unsync_todo c k w1)
            else (Inr (), w1)))"

subsection \<open>Settings\<close>

definition saveSetting :: "conditions \<Rightarrow> string \<Rightarrow> string \<Rightarrow> world \<Rightarrow> (error + string) \<times> world" where
  "saveSetting c k v w =
     (if idb_rejects c then (Inl IdbError, log [IdbPut STORE_SETTINGS k] w)
      else
        (let result = k;
             w1 = log [IdbPut STORE_SETTINGS k]
                    (w\<lparr>idb_settings := idb_put s_key \<lparr>s_key = k, s_value = v\<rparr> (idb_settings w)\<rparr>)
         in if isFirebaseReady (firebase w1) then
              (case firebaseSync_save c (firebase w1) (''settings/'' @ k) v (rtdb_settings w1) of
                 Inl err \<Rightarrow> (Inr result, log [SyncSave (''settings/'' @ k)] w1)
               | Inr db' \<Rightarrow>
                   (Inr result, log [SyncSave (''settings/'' @ k)] (w1\<lparr>rtdb_settings := db'\<rparr>)))
            else (Inr result, w1)))"

subsection \<open>Live subscription: the two callbacks \<open>setupRealtimeSync\<close> registers\<close>

text \<open>
  \<open>data\<close> is the snapshot handed to the callback: \<open>None\<close> for \<open>null\<close>, \<open>Some obj\<close> for an
  object. The callback on \<open>memories\<close> is asynchronous: a local transaction that rejects
  ends it there (\<open>Inl\<close>), with nothing to catch the rejection.
\<close>

definition memoriesListener ::
    "conditions \<Rightarrow> Memory collection option \<Rightarrow> world \<Rightarrow> (error + unit) \<times> world" where
  "memoriesListener c data w =
     (case data of
        Some (d # ds) \<Rightarrow>
          (if idb_rejects c then (Inl IdbError, log [IdbGetAll STORE_MEMORIES] w)
           else
             (let firebaseMemories = map snd (d # ds);
                  firebaseIds = set (map m_id firebaseMemories);
                  localMemories = idb_memories w;
                  localMap = js_Map (map (\<lambda>m. (m_id m, m)) localMemories);
                  enhancedMemories = map (enhance localMap) firebaseMemories;
                  toDelete = filter (\<lambda>m. m_id m \<notin> firebaseIds) localMemories;
                  pruned = delete_all m_id toDelete localMemories;
                  stored = put_all m_id enhancedMemories pruned
              in (Inr (),
                  log ([IdbGetAll STORE_MEMORIES]
                       @ map (\<lambda>m. IdbDelete STORE_MEMORIES (m_id m)) toDelete
                       @ map (\<lambda>m. IdbPut STORE_MEMORIES (m_id m)) enhancedMemories
                       @ [OnMemoriesChange enhancedMemories])
                    (w\<lparr>idb_memories := stored\<rparr>))))
      | _ \<Rightarrow>
          (if idb_rejects c then (Inl IdbError, log [IdbGetAll STORE_MEMORIES] w)
           else
             (let localMemories = idb_memories w
              in (Inr (),
                  log ([IdbGetAll STORE_MEMORIES]
                       @ map (\<lambda>m. IdbDelete STORE_MEMORIES (m_id m)) localMemories
                       @ [OnMemoriesChange []])
                    (w\<lparr>idb_memories := delete_all m_id localMemories localMemories\<rparr>)))))"

text \<open>
  The callback on \<open>todos\<close> is synchronous: it calls \<open>onTodosChange\<close> and then starts the
  local writes, whose rejection is logged (\<open>.catch(console.error)\<close>).
\<close>

definition todosListener :: "conditions \<Rightarrow> TodoItem collection option \<Rightarrow> world \<Rightarrow> world" where
  "todosListener c data w =
     (case data of
        Some obj \<Rightarrow>
          (let todos = map snd obj
           in log (OnTodosChange todos # map (\<lambda>t. IdbPut STORE_TODOS (t_id t)) todos)
                (if idb_rejects c then w
                 else w\<lparr>idb_todos := put_all t_id todos (idb_todos w)\<rparr>))
      | None \<Rightarrow> log [OnTodosChange []] w)"

section \<open>Application shell: restoring a backup (\<open>handleImportData\<close>, src/App.tsx)\<close>

subsection \<open>Calls that run together\<close>

text \<open>
  \<open>handleImportData\<close> passes lists of calls of \<open>deleteMemory\<close>, \<open>deleteTodo\<close>,
  \<open>saveMemory\<close> and \<open>saveTodo\<close> to \<open>Promise.all\<close>: the calls are started together and
  each runs up to its next \<open>await\<close> whenever what it awaited completes. So beside
  the definitions above, which run a call from start to end, each of the four
  functions is given here as the sequence of its steps: a call is \<open>Resolved\<close> (with
  \<open>None\<close> when fulfilled, with the error when rejected) or waits at an \<open>await\<close>, holding
  what it does to the state when the awaited operation completes and the call it is
  from then on. The awaited operations are the local transaction, the upload, the
  remote read and the remote write.
\<close>

datatype 'r async = Resolved 'r | Await "world \<Rightarrow> 'r async \<times> world"

type_synonym call = "error option async"

text \<open>The remote half of \<open>saveMemory\<close>, from \<open>await firebaseSync.get\<close> on.\<close>

definition sync_memory_async :: "conditions \<Rightarrow> string \<Rightarrow> Memory \<Rightarrow> call" where
  "sync_memory_async c memory_id memoryForFirebase =
     Await (\<lambda>w.
       case firebaseSync_get c (firebase w) ''memories'' (rtdb_memories w) of
         Inl err \<Rightarrow> (Resolved None, log [SyncGet ''memories''] w)
       | Inr firebaseData \<Rightarrow>
           (let memoriesObj = (case firebaseData of Some obj \<Rightarrow> obj | None \<Rightarrow> []);
                memoriesObj' = js_assign memory_id memoryForFirebase memoriesObj
            in (Await (\<lambda>w.
                  case firebaseSync_save c (firebase w) ''memories'' memoriesObj'
                         (rtdb_memories w) of
                    Inl err \<Rightarrow> (Resolved None, log [SyncSave ''memories''] w)
                  | Inr db' \<Rightarrow>
                      (Resolved None, log [SyncSave ''memories''] (w\<lparr>rtdb_memories := db'\<rparr>))),
                log [SyncGet ''memories''] w)))"

definition saveMemory_async :: "conditions \<Rightarrow> Memory \<Rightarrow> call" where
  "saveMemory_async c memory =
     Await (\<lambda>w.
       if idb_rejects c
       then (Resolved (Some IdbError), log [IdbPut STORE_MEMORIES (m_id memory)] w)
       else
         (let w1 = log [IdbPut STORE_MEMORIES (m_id memory)]
                     (w\<lparr>idb_memories := idb_put m_id memory (idb_memories w)\<rparr>)
          in if isFirebaseReady (firebase w1) then
               (if prefix ''data:'' (m_url memory) then
                  (Await (\<lambda>w.
                     (let w2 = log [UploadMedia (m_id memory)] w in
                      case uploadMedia c (firebase w) (m_url memory) (m_id memory)
                             (m_type memory) of
                        Some storageUrl \<Rightarrow>
                          if storageUrl \<noteq> []
                          then (sync_memory_async c (m_id memory)
                                  (memory\<lparr>m_url := storageUrl\<rparr>), w2)
                          else (Resolved None, w2)
                      | None \<Rightarrow> (Resolved None, w2))), w1)
                else (sync_memory_async c (m_id memory) memory, w1))
             else (Resolved None, w1)))"

definition deleteMemory_async :: "conditions \<Rightarrow> string \<Rightarrow> call" where
  "deleteMemory_async c k =
     Await (\<lambda>w.
       if idb_rejects c then (Resolved (Some IdbError), log [IdbDelete STORE_MEMORIES k] w)
       else
         (let w1 = log [IdbDelete STORE_MEMORIES k]
                     (w\<lparr>idb_memories := idb_delete m_id k (idb_memories w)\<rparr>)
          in if isFirebaseReady (firebase w1) then
               (Await (\<lambda>w.
                  case firebaseSync_get c (firebase w) ''memories'' (rtdb_memories w) of
                    Inl err \<Rightarrow> (Resolved None, log [SyncGet ''memories''] w)
                  | Inr firebaseData \<Rightarrow>
                      (let memoriesObj =
                             (case firebaseData of Some obj \<Rightarrow> obj | None \<Rightarrow> []);
                           memoriesObj' = AList.delete k memoriesObj
                       in (Await (\<lambda>w.
                             case firebaseSync_save c (firebase w) ''memories'' memoriesObj'
                                    (rtdb_memories w) of
                               Inl err \<Rightarrow> (Resolved None, log [SyncSave ''memories''] w)
                             | Inr db' \<Rightarrow>
                                 (Resolved None,
                                  log [SyncSave ''memories''] (w\<lparr>rtdb_memories := db'\<rparr>))),
                           log [SyncGet ''memories''] w))), w1)
             else (Resolved None, w1)))"

definition saveTodo_async :: "conditions \<Rightarrow> TodoItem \<Rightarrow> call" where
  "saveTodo_async c todo =
     Await (\<lambda>w.
       if idb_rejects c then (Resolved (Some IdbError), log [IdbPut STORE_TODOS (t_id todo)] w)
       else
         (let w1 = log [IdbPut STORE_TODOS (t_id todo)]
                     (w\<lparr>idb_todos := idb_put t_id todo (idb_todos w)\<rparr>)
          in if isFirebaseReady (firebase w1) then
               (Await (\<lambda>w.
                  case firebaseSync_get c (firebase w) ''todos'' (rtdb_todos w) of
                    Inl err \<Rightarrow> (Resolved None, log [SyncGet ''todos''] w)
                  | Inr firebaseData \<Rightarrow>
                      (let todosObj = (case firebaseData of Some obj \<Rightarrow> obj | None \<Rightarrow> []);
                           todosObj' = js_assign (t_id todo) todo todosObj
                       in (Await (\<lambda>w.
                             case firebaseSync_save c (firebase w) ''todos'' todosObj'
                                    (rtdb_todos w) of
                               Inl err \<Rightarrow> (Resolved None, log [SyncSave ''todos''] w)
                             | Inr db' \<Rightarrow>
                                 (Resolved None,
                                  log [SyncSave ''todos''] (w\<lparr>rtdb_todos := db'\<rparr>))),
                           log [SyncGet ''todos''] w))), w1)
             else (Resolved None, w1)))"

definition deleteTodo_async :: "conditions \<Rightarrow> string \<Rightarrow> call" where
  "deleteTodo_async c k =
     Await (\<lambda>w.
       if idb_rejects c then (Resolved (Some IdbError), log [IdbDelete STORE_TODOS k] w)
       else
         (let w1 = log [IdbDelete STORE_TODOS k]
                     (w\<lparr>idb_todos := idb_delete t_id k (idb_todos w)\<rparr>)
          in if isFirebaseReady (firebase w1) then
               (Await (\<lambda>w.
                  case firebaseSync_get c (firebase w) ''todos'' (rtdb_todos w) of
                    Inl err \<Rightarrow> (Resolved None, log [SyncGet ''todos''] w)
                  | Inr firebaseData \<Rightarrow>
                      (let todosObj = (case firebaseData of Some obj \<Rightarrow> obj | None \<Rightarrow> []);
                           todosObj' = AList.delete k todosObj
                       in (Await (\<lambda>w.
                             case firebaseSync_save c (firebase w) ''todos'' todosObj'
                                    (rtdb_todos w) of
                               Inl err \<Rightarrow> (Resolved None, log [SyncSave ''todos''] w)
                             | Inr db' \<Rightarrow>
                                 (Resolved None,
                                  log [SyncSave ''todos''] (w\<lparr>rtdb_todos := db'\<rparr>))),
                           log [SyncGet ''todos''] w))), w1)
             else (Resolved None, w1)))"

text \<open>
  The order in which the awaited operations of the started calls complete is decided
  by the stores and the network, not by the code. It is given as a list of indices
  into the list of calls: at each index the awaited operation of that call completes
  and the call runs up to its next \<open>await\<close> (an index of a resolved call, or out of
  range, does nothing).
\<close>

fun complete :: "nat list \<Rightarrow> call list \<Rightarrow> world \<Rightarrow> call list \<times> world" where
  "complete [] calls w = (calls, w)"
| "complete (i # order) calls w =
     (if i < length calls then
        (case calls ! i of
           Await k \<Rightarrow> (let (call', w') = k w in complete order (calls[i := call']) w')
         | Resolved r \<Rightarrow> complete order calls w)
      else complete order calls w)"

text \<open>
  What \<open>await Promise.all(calls)\<close> has come to: rejected once a call has rejected,
  fulfilled when every call has fulfilled, pending otherwise.
\<close>

datatype settlement = Pending | Fulfilled | Rejected error

fun settlement_of :: "call list \<Rightarrow> settlement" where
  "settlement_of [] = Fulfilled"
| "settlement_of (Resolved (Some e) # calls) = Rejected e"
| "settlement_of (Resolved None # calls) = settlement_of calls"
| "settlement_of (Await k # calls) =
     (case settlement_of calls of Rejected e \<Rightarrow> Rejected e | _ \<Rightarrow> Pending)"

text \<open>
  \<open>scheduler\<close> gives the order of completions for a number of calls started together.
\<close>

definition Promise_all ::
    "(nat \<Rightarrow> nat list) \<Rightarrow> call list \<Rightarrow> world \<Rightarrow> settlement \<times> world" where
  "Promise_all scheduler calls w =
     (let (calls', w') = complete (scheduler (length calls)) calls w
      in (settlement_of calls', w'))"

text \<open>
  Two schedulers. A call has at most four awaits. \<open>in_turn\<close>: the operations of the
  first call complete, then those of the second, and so on, so that the calls take
  effect one after another. \<open>in_step\<close>: the first awaited operation of every call
  completes, then the second of every call, and so on, as when the calls are issued
  within the same instant and every operation takes about as long for each of them.
\<close>

definition in_turn :: "nat \<Rightarrow> nat list" where
  "in_turn n = concat (map (\<lambda>i. [i, i, i, i]) [0..<n])"

definition in_step :: "nat \<Rightarrow> nat list" where
  "in_step n = [0..<n] @ [0..<n] @ [0..<n] @ [0..<n]"

subsection \<open>The handler\<close>

text \<open>
  What the handler reads of the parsed backup document. Its test of a field,
  \<open>!backupData.memories\<close>, asks whether the value is falsy, and \<open>.map\<close> is then called on
  the value. So a field \<open>memories\<close> or \<open>todos\<close> is \<open>Falsy\<close> when it is missing or holds
  \<open>null\<close>, \<open>false\<close>, \<open>0\<close> or the empty string; \<open>Array\<close> of its items when it holds an
  array (an array is truthy, the empty one too; the items are taken to have the
  fields of their type, as the handler's annotations say); and \<open>Truthy_not_array\<close>
  when it holds anything else: \<open>true\<close>, another number, a non-empty string or an object,
  none of which has a method \<open>map\<close>. An avatar is \<open>None\<close> where
  \<open>backupData.settings?.avatar_...\<close> is missing or \<open>null\<close>, and the text it holds
  otherwise (the export writes a data URL there). The file the user selected is
  absent, not a document (\<open>JSON.parse\<close> throws, or gives \<open>null\<close>, whose fields cannot be
  read), or a document.
\<close>

datatype 'a field = Falsy | Truthy_not_array | Array "'a list"

record BackupDocument =
  b_memories :: "Memory field"
  b_todos :: "TodoItem field"
  b_avatar_jerry :: "string option"
  b_avatar_claire :: "string option"

datatype selected_file = NoFile | NotJson | Json BackupDocument

text \<open>
  What the user sees at the end: nothing (\<open>Ignored\<close>: no file; \<open>Cancelled\<close>: the
  confirmation dialog was declined), the alert of the \<open>catch\<close> block (\<open>AlertFailed\<close>) or
  the alert of success (\<open>AlertRestored\<close>); \<open>StillRunning\<close> when the handler still waits
  for a \<open>Promise.all\<close> after the completions of the schedule.
\<close>

datatype import_outcome = Ignored | AlertFailed | Cancelled | AlertRestored | StillRunning

text \<open>The block under \<open>// Clear existing data\<close>.\<close>

definition clear_existing ::
    "conditions \<Rightarrow> (nat \<Rightarrow> nat list) \<Rightarrow> world \<Rightarrow> settlement \<times> world" where
  "clear_existing c scheduler w =
     (case getAllMemories c w of
        (Inl e, w1) \<Rightarrow> (Rejected e, w1)
      | (Inr allMemories, w1) \<Rightarrow>
          (case getAllTodos c w1 of
             (Inl e, w2) \<Rightarrow> (Rejected e, w2)
           | (Inr allTodos, w2) \<Rightarrow>
               Promise_all scheduler
                 (map (\<lambda>m. deleteMemory_async c (m_id m)) allMemories
                  @ map (\<lambda>t. deleteTodo_async c (t_id t)) allTodos) w2))"

text \<open>
  The block under \<open>// Import new data\<close>. The array handed to \<open>Promise.all\<close> is built
  first, from \<open>backupData.memories.map(...)\<close> and then \<open>backupData.todos.map(...)\<close>, and
  \<open>map\<close> starts the calls. On a value that is not an array \<open>.map\<close> is not a function and
  the block throws: at once when it is \<open>memories\<close>; when it is \<open>todos\<close>, after the saves
  of the memories have been started, which then run on with nothing awaiting them.
\<close>

definition import_new ::
    "conditions \<Rightarrow> (nat \<Rightarrow> nat list) \<Rightarrow> Memory field \<Rightarrow> TodoItem field \<Rightarrow> world
       \<Rightarrow> settlement \<times> world" where
  "import_new c scheduler memories todos w =
     (case memories of
        Array ms \<Rightarrow>
          (case todos of
             Array ts \<Rightarrow>
               Promise_all scheduler
                 (map (saveMemory_async c) ms @ map (saveTodo_async c) ts) w
           | _ \<Rightarrow>
               (Rejected TypeError,
                snd (Promise_all scheduler (map (saveMemory_async c) ms) w)))
      | _ \<Rightarrow> (Rejected TypeError, w))"

text \<open>One \<open>if (backupData.settings?.avatar_...)\<close>: a non-empty string is saved.\<close>

definition restore_avatar ::
    "conditions \<Rightarrow> string \<Rightarrow> string option \<Rightarrow> world \<Rightarrow> settlement \<times> world" where
  "restore_avatar c k avatar w =
     (case avatar of
        Some (x # xs) \<Rightarrow>
          (case saveSetting c k (x # xs) w of
             (Inl e, w1) \<Rightarrow> (Rejected e, w1)
           | (Inr r, w1) \<Rightarrow> (Fulfilled, w1))
      | _ \<Rightarrow> (Fulfilled, w))"

text \<open>
  \<open>handleImportData\<close>; \<open>confirmed\<close> is the answer to \<open>window.confirm\<close>. An error thrown
  anywhere in the \<open>try\<close> block ends in the \<open>catch\<close> block, which alerts. (The React
  state the handler sets at the end is not part of the model.)
\<close>

definition handleImportData ::
    "conditions \<Rightarrow> bool \<Rightarrow> (nat \<Rightarrow> nat list) \<Rightarrow> selected_file \<Rightarrow> world
       \<Rightarrow> import_outcome \<times> world" where
  "handleImportData c confirmed scheduler file w =
     (case file of
        NoFile \<Rightarrow> (Ignored, w)
      | NotJson \<Rightarrow> (AlertFailed, w)
      | Json backupData \<Rightarrow>
          if b_memories backupData = Falsy then (AlertFailed, w)
          else if b_todos backupData = Falsy then (AlertFailed, w)
          else if \<not> confirmed then (Cancelled, w)
          else
            (case clear_existing c scheduler w of
               (Rejected e, w1) \<Rightarrow> (AlertFailed, w1)
             | (Pending, w1) \<Rightarrow> (StillRunning, w1)
             | (Fulfilled, w1) \<Rightarrow>
                 (case import_new c scheduler (b_memories backupData)
                         (b_todos backupData) w1 of
                    (Rejected e, w2) \<Rightarrow> (AlertFailed, w2)
                  | (Pending, w2) \<Rightarrow> (StillRunning, w2)
                  | (Fulfilled, w2) \<Rightarrow>
                      (case restore_avatar c ''avatar_jerry''
                              (b_avatar_jerry backupData) w2 of
                         (Rejected e, w3) \<Rightarrow> (AlertFailed, w3)
                       | (Pending, w3) \<Rightarrow> (StillRunning, w3)
                       | (Fulfilled, w3) \<Rightarrow>
                           (case restore_avatar c ''avatar_claire''
                                   (b_avatar_claire backupData) w3 of
                              (Rejected e, w4) \<Rightarrow> (AlertFailed, w4)
                            | (Pending, w4) \<Rightarrow> (StillRunning, w4)
                            | (Fulfilled, w4) \<Rightarrow> (AlertRestored, w4))))))"

section \<open>Vocabulary of the properties\<close>

text \<open>What the hosted database holds for each collection (\<open>None\<close>: no data).\<close>

definition remote_memories :: "world \<Rightarrow> Memory collection option" where
  "remote_memories w = map_of (rtdb_memories w) (getSharedPath ''memories'')"

definition remote_todos :: "world \<Rightarrow> TodoItem collection option" where
  "remote_todos w = map_of (rtdb_todos w) (getSharedPath ''todos'')"

text \<open>
  The remote store is reachable when the adapter is ready and its reads and writes go
  through.
\<close>

definition remote_reachable :: "conditions \<Rightarrow> world \<Rightarrow> bool" where
  "remote_reachable c w = (isFirebaseReady (firebase w) \<and> \<not> get_throws c \<and> \<not> set_throws c)"

text \<open>
  A remote collection is keyed by id when every entry sits under the \<open>id\<close> of its item,
  as \<open>saveMemory\<close> and \<open>saveTodo\<close> write it (\<open>memoriesObj[memory.id] = ...\<close>).
\<close>

definition keyed_by_id :: "('a \<Rightarrow> string) \<Rightarrow> 'a collection option \<Rightarrow> bool" where
  "keyed_by_id key remote =
     (case remote of None \<Rightarrow> True | Some obj \<Rightarrow> list_all (\<lambda>(k, x). key x = k) obj)"

text \<open>
  \<open>firebaseData || {}\<close> and \<open>Object.values\<close> of it: the entries and the items of a remote
  collection.
\<close>

definition entries_of :: "'a collection option \<Rightarrow> 'a collection" where
  "entries_of remote = (case remote of Some obj \<Rightarrow> obj | None \<Rightarrow> [])"

definition items_of :: "'a collection option \<Rightarrow> 'a list" where
  "items_of remote = map snd (entries_of remote)"

section \<open>Sample data\<close>

text \<open>
  A clock reading on 1 November 2025, the start date of the application
  (\<open>START_DATE\<close>, midnight of 25 October 2025, here in UTC) and the date as far ahead of
  the clock as the start date is behind it.
\<close>

definition ex_now :: Date where "ex_now = Date 1762000000000"

definition ex_start :: Date where "ex_start = Date 1761350400000"

definition ex_mirror :: Date where "ex_mirror = Date 1762649600000"

text \<open>Conditions under which every service works, and under which the remote ones fail.\<close>

definition ex_online :: conditions where
  "ex_online = \<lparr>idb_rejects = False, get_throws = False, set_throws = False,
     remove_throws = False, onValue_throws = False,
     upload_url = (\<lambda>p. Some (''https://storage.example/'' @ p))\<rparr>"

definition ex_offline :: conditions where
  "ex_offline = \<lparr>idb_rejects = False, get_throws = True, set_throws = True,
     remove_throws = True, onValue_throws = True, upload_url = (\<lambda>p. None)\<rparr>"

definition ex_ready :: firebase_module where
  "ex_ready = \<lparr>isInitialized = True, database = True, storage = True\<rparr>"

definition ex_photo :: Memory where
  "ex_photo = \<lparr>m_id = ''m1'', m_type = Image, m_url = ''data:image/png;base64,AAAA'',
     m_caption = Some ''first'', m_date = ''2025-10-25''\<rparr>"

definition ex_photo_remote :: Memory where
  "ex_photo_remote = \<lparr>m_id = ''m1'', m_type = Image,
     m_url = ''https://storage.example/memories/m1.png'',
     m_caption = Some ''edited'', m_date = ''2025-10-26''\<rparr>"

definition ex_clip :: Memory where
  "ex_clip = \<lparr>m_id = ''m2'', m_type = Video,
     m_url = ''https://storage.example/memories/m2.mp4'',
     m_caption = None, m_date = ''2025-11-02''\<rparr>"

definition ex_todo :: TodoItem where
  "ex_todo = \<lparr>t_id = ''t1'', t_text = ''picnic'', t_completed = False, t_notes = Some [],
     t_category = None\<rparr>"

definition ex_todo_remote :: TodoItem where
  "ex_todo_remote = \<lparr>t_id = ''t1'', t_text = ''picnic'', t_completed = True,
     t_notes = Some ''done'', t_category = Some Food\<rparr>"

definition ex_todo2 :: TodoItem where
  "ex_todo2 = \<lparr>t_id = ''t2'', t_text = ''museum'', t_completed = True, t_notes = None,
     t_category = Some Activity\<rparr>"

text \<open>A device holding two memories and two todos while the remote collections are empty.\<close>

definition ex_local_only :: world where
  "ex_local_only = \<lparr>firebase = ex_ready, idb_memories = [ex_photo, ex_clip],
     idb_todos = [ex_todo, ex_todo2], idb_settings = [], rtdb_memories = [], rtdb_todos = [],
     rtdb_settings = [], trace = []\<rparr>"

text \<open>
  A device whose local copies are older than the remote ones: the photo is held inline
  locally and by URL remotely, with a newer caption and date; the first todo was
  completed elsewhere and the second was deleted elsewhere.
\<close>

definition ex_stale :: world where
  "ex_stale = \<lparr>firebase = ex_ready, idb_memories = [ex_photo],
     idb_todos = [ex_todo, ex_todo2], idb_settings = [],
     rtdb_memories = [(''shared/memories'', [(''m1'', ex_photo_remote), (''m2'', ex_clip)])],
     rtdb_todos = [(''shared/todos'', [(''t1'', ex_todo_remote)])], rtdb_settings = [],
     trace = []\<rparr>"

text \<open>Conditions under which the remote store can be read but not written.\<close>

definition ex_write_fails :: conditions where
  "ex_write_fails = \<lparr>idb_rejects = False, get_throws = False, set_throws = True,
     remove_throws = True, onValue_throws = False,
     upload_url = (\<lambda>p. Some (''https://storage.example/'' @ p))\<rparr>"

text \<open>
  A device on which Firebase was never configured (\<open>initFirebase\<close> returned early),
  holding two memories and two todos.
\<close>

definition ex_unconfigured :: world where
  "ex_unconfigured = \<lparr>firebase = \<lparr>isInitialized = False, database = False, storage = False\<rparr>,
     idb_memories = [ex_photo, ex_clip], idb_todos = [ex_todo, ex_todo2], idb_settings = [],
     rtdb_memories = [], rtdb_todos = [], rtdb_settings = [], trace = []\<rparr>"

text \<open>Conditions under which the local store rejects every transaction.\<close>

definition ex_idb_broken :: conditions where
  "ex_idb_broken = \<lparr>idb_rejects = True, get_throws = False, set_throws = False,
     remove_throws = False, onValue_throws = False,
     upload_url = (\<lambda>p. Some (''https://storage.example/'' @ p))\<rparr>"

text \<open>
  Backup documents: a complete one; one without the \<open>todos\<close> field; one with no items;
  one with two todos; and one whose \<open>memories\<close> field holds a piece of text,
  \<open>{"memories": "abc", "todos": []}\<close>.
\<close>

definition ex_backup :: BackupDocument where
  "ex_backup = \<lparr>b_memories = Array [ex_photo, ex_clip], b_todos = Array [ex_todo2],
     b_avatar_jerry = Some ''data:image/png;base64,JJJJ'', b_avatar_claire = None\<rparr>"

definition ex_backup_no_todos :: BackupDocument where
  "ex_backup_no_todos = \<lparr>b_memories = Array [ex_photo, ex_clip], b_todos = Falsy,
     b_avatar_jerry = None, b_avatar_claire = None\<rparr>"

definition ex_empty_backup :: BackupDocument where
  "ex_empty_backup = \<lparr>b_memories = Array [], b_todos = Array [], b_avatar_jerry = None,
     b_avatar_claire = None\<rparr>"

definition ex_backup_two_todos :: BackupDocument where
  "ex_backup_two_todos = \<lparr>b_memories = Array [], b_todos = Array [ex_todo, ex_todo2],
     b_avatar_jerry = None, b_avatar_claire = None\<rparr>"

definition ex_backup_text_memories :: BackupDocument where
  "ex_backup_text_memories = \<lparr>b_memories = Truthy_not_array, b_todos = Array [],
     b_avatar_jerry = None, b_avatar_claire = None\<rparr>"

text \<open>A device in step with the remote store, two todos on each side.\<close>

definition ex_shared_todos :: world where
  "ex_shared_todos = \<lparr>firebase = ex_ready, idb_memories = [],
     idb_todos = [ex_todo_remote, ex_todo2], idb_settings = [], rtdb_memories = [],
     rtdb_todos = [(''shared/todos'', [(''t1'', ex_todo_remote), (''t2'', ex_todo2)])],
     rtdb_settings = [], trace = []\<rparr>"

text \<open>A device with nothing stored, locally or remotely.\<close>

definition ex_blank :: world where
  "ex_blank = \<lparr>firebase = ex_ready, idb_memories = [], idb_todos = [], idb_settings = [],
     rtdb_memories = [], rtdb_todos = [], rtdb_settings = [], trace = []\<rparr>"

section \<open>Properties of the timer\<close>

lemma ms_split:
  fixes a :: int
  assumes "0 \<le> a"
  shows "(a div 86400000) * 86400000 + ((a mod 86400000) div 3600000) * 3600000
           + ((a mod 3600000) div 60000) * 60000 + ((a mod 60000) div 1000) * 1000
           + a mod 1000 = a"
proof -
  have d: "a = (a div 86400000) * 86400000 + a mod 86400000" by simp
  have h: "a mod 86400000 = ((a mod 86400000) div 3600000) * 3600000 + a mod 3600000"
  proof -
    have "(a mod 86400000) mod 3600000 = a mod 3600000"
      by (rule mod_mod_cancel) simp
    then show ?thesis
      using div_mult_mod_eq [of "a mod 86400000" 3600000] by simp
  qed
  have m: "a mod 3600000 = ((a mod 3600000) div 60000) * 60000 + a mod 60000"
  proof -
    have "(a mod 3600000) mod 60000 = a mod 60000"
      by (rule mod_mod_cancel) simp
    then show ?thesis
      using div_mult_mod_eq [of "a mod 3600000" 60000] by simp
  qed
  have s: "a mod 60000 = ((a mod 60000) div 1000) * 1000 + a mod 1000"
  proof -
    have "(a mod 60000) mod 1000 = a mod 1000"
      by (rule mod_mod_cancel) simp
    then show ?thesis
      using div_mult_mod_eq [of "a mod 60000" 1000] by simp
  qed
  from d h m s show ?thesis by linarith
qed

text \<open>What \<open>calculateTime\<close> computes when the difference of the time values is exact.\<close>

lemma calculateTime_exact:
  assumes "getTime now = Num a" and "getTime startDate = Num b"
    and "\<bar>a - b\<bar> \<le> 9007199254740992"
  shows "calculateTime now startDate =
           \<lparr>isFuture = a < b,
            timeLeft = \<lparr>days = Num (\<bar>a - b\<bar> div 86400000),
                        hours = Num ((\<bar>a - b\<bar> mod 86400000) div 3600000),
                        minutes = Num ((\<bar>a - b\<bar> mod 3600000) div 60000),
                        seconds = Num ((\<bar>a - b\<bar> mod 60000) div 1000)\<rparr>\<rparr>"
  using assms by (simp add: calculateTime_def minus_double_def Let_def)

text \<open>
  C10. For every start date that is a valid date at most \<open>2^53\<close> milliseconds (some
  285 000 years) from the clock reading, the displayed decomposition of
  \<open>|now - startDate|\<close> consists of four integers, with hours in \<open>[0, 24)\<close>, minutes and
  seconds in \<open>[0, 60)\<close>, and brackets the absolute difference to the second; the
  heading is chosen by the sign of the difference alone; and the start date as far
  ahead of the clock as this one is behind it (or the other way round) shows the same
  four numbers.
\<close>

theorem calculateTime_decomposition:
  assumes "getTime now = Num a" and "getTime startDate = Num b"
    and "\<bar>a - b\<bar> \<le> 2 ^ 53"
  shows "\<exists>d h m s.
           timeLeft (calculateTime now startDate)
             = \<lparr>days = Num d, hours = Num h, minutes = Num m, seconds = Num s\<rparr>
         \<and> 0 \<le> d \<and> 0 \<le> h \<and> h < 24 \<and> 0 \<le> m \<and> m < 60 \<and> 0 \<le> s \<and> s < 60
         \<and> d * 86400000 + h * 3600000 + m * 60000 + s * 1000 \<le> \<bar>a - b\<bar>
         \<and> \<bar>a - b\<bar> < d * 86400000 + h * 3600000 + m * 60000 + (s + 1) * 1000
         \<and> render_heading (calculateTime now startDate)
             = (if a < b then CountdownHeading else ElapsedHeading)
         \<and> (\<forall>mirror. getTime mirror = Num (a + (a - b)) \<longrightarrow>
               render_numbers (calculateTime now mirror)
                 = render_numbers (calculateTime now startDate))"
proof -
  define x where "x = \<bar>a - b\<bar>"
  define d where "d = x div 86400000"
  define h where "h = (x mod 86400000) div 3600000"
  define m where "m = (x mod 3600000) div 60000"
  define s where "s = (x mod 60000) div 1000"
  have r: "\<bar>a - b\<bar> \<le> 9007199254740992" using assms(3) by simp
  have x0: "0 \<le> x" by (simp add: x_def)
  have c: "calculateTime now startDate =
             \<lparr>isFuture = a < b,
              timeLeft = \<lparr>days = Num d, hours = Num h, minutes = Num m, seconds = Num s\<rparr>\<rparr>"
    unfolding d_def h_def m_def s_def x_def by (rule calculateTime_exact [OF assms(1,2) r])
  have t: "timeLeft (calculateTime now startDate)
             = \<lparr>days = Num d, hours = Num h, minutes = Num m, seconds = Num s\<rparr>"
    by (simp add: c)
  have q: "0 \<le> x mod 1000" "x mod 1000 < 1000" by simp_all
  have b1: "0 \<le> d" using x0 by (simp add: d_def pos_imp_zdiv_nonneg_iff)
  have b2: "0 \<le> h" "h < 24" by (simp_all add: h_def pos_imp_zdiv_nonneg_iff)
  have b3: "0 \<le> m" "m < 60" by (simp_all add: m_def pos_imp_zdiv_nonneg_iff)
  have b4: "0 \<le> s" "s < 60" by (simp_all add: s_def pos_imp_zdiv_nonneg_iff)
  have sum: "d * 86400000 + h * 3600000 + m * 60000 + s * 1000 + x mod 1000 = x"
    unfolding d_def h_def m_def s_def by (rule ms_split [OF x0])
  have lo: "d * 86400000 + h * 3600000 + m * 60000 + s * 1000 \<le> \<bar>a - b\<bar>"
    using sum q unfolding x_def by linarith
  have hi: "\<bar>a - b\<bar> < d * 86400000 + h * 3600000 + m * 60000 + (s + 1) * 1000"
    using sum q unfolding x_def by (simp add: algebra_simps)
  have head: "render_heading (calculateTime now startDate)
                = (if a < b then CountdownHeading else ElapsedHeading)"
    by (simp add: c render_heading_def)
  have mirror: "render_numbers (calculateTime now mirror)
                  = render_numbers (calculateTime now startDate)"
    if g: "getTime mirror = Num (a + (a - b))" for mirror
  proof -
    have r': "\<bar>a - (a + (a - b))\<bar> \<le> 9007199254740992" using r by simp
    have e: "\<bar>a - (a + (a - b))\<bar> = \<bar>a - b\<bar>" by simp
    show ?thesis
      unfolding calculateTime_exact [OF assms(1) g r'] calculateTime_exact [OF assms(1,2) r] e
      by (simp add: render_numbers_def)
  qed
  from t b1 b2 b3 b4 lo hi head mirror show ?thesis by blast
qed

theorem calculateTime_decomposition_witness:
  "getTime ex_now = Num 1762000000000 \<and> getTime ex_start = Num 1761350400000
   \<and> \<bar>1762000000000 - 1761350400000\<bar> \<le> (2 ^ 53 :: int)
   \<and> getTime ex_mirror = Num (1762000000000 + (1762000000000 - 1761350400000))
   \<and> timeLeft (calculateTime ex_now ex_start)
       = \<lparr>days = Num 7, hours = Num 12, minutes = Num 26, seconds = Num 40\<rparr>
   \<and> render_heading (calculateTime ex_now ex_start) = ElapsedHeading
   \<and> render_heading (calculateTime ex_now ex_mirror) = CountdownHeading
   \<and> render_numbers (calculateTime ex_now ex_mirror) = (Num 7, Num 12, Num 26, Num 40)"
proof -
  have g: "getTime ex_now = Num 1762000000000" "getTime ex_start = Num 1761350400000"
    "getTime ex_mirror = Num (1762000000000 + (1762000000000 - 1761350400000))"
    by (simp_all add: getTime_def ex_now_def ex_start_def ex_mirror_def)
  have r: "\<bar>1762000000000 - 1761350400000\<bar> \<le> (2 ^ 53 :: int)" by simp
  have v: "timeLeft (calculateTime ex_now ex_start)
       = \<lparr>days = Num 7, hours = Num 12, minutes = Num 26, seconds = Num 40\<rparr>"
    "render_heading (calculateTime ex_now ex_mirror) = CountdownHeading"
    by (simp_all add: calculateTime_def g minus_double_def Let_def render_heading_def)
  from calculateTime_decomposition [OF g(1,2) r] g(3) v
  have "render_heading (calculateTime ex_now ex_start) = ElapsedHeading"
    "render_numbers (calculateTime ex_now ex_mirror) = (Num 7, Num 12, Num 26, Num 40)"
    by (auto simp: render_numbers_def)
  with g r v show ?thesis by simp
qed

text \<open>
  Outside that range the numbers shown are those of the rounded difference, or \<open>NaN\<close>:
  between the last valid date and the first but one, 17279999999999999 milliseconds
  apart, the timer shows 200000000 days and no hours, minutes or seconds, one
  millisecond more than the difference; and for an Invalid Date every field is \<open>NaN\<close>.
\<close>

lemma calculateTime_beyond_exact_range:
  "timeLeft (calculateTime (Date 8640000000000000) (Date (- 8639999999999999)))
     = \<lparr>days = Num 200000000, hours = Num 0, minutes = Num 0, seconds = Num 0\<rparr>
   \<and> timeLeft (calculateTime (Date 1762000000000) Invalid_Date)
     = \<lparr>days = NaN, hours = NaN, minutes = NaN, seconds = NaN\<rparr>"
  by (simp add: calculateTime_def getTime_def minus_double_def Let_def)

section \<open>Properties of the local store\<close>

lemma idb_put_mem: "x \<in> set (idb_put key x store)"
  by (induction store) auto

lemma idb_put_idem: "idb_put key x (idb_put key x store) = idb_put key x store"
  by (induction store) auto

lemma idb_put_others:
  "{y \<in> set (idb_put key x store). key y \<noteq> key x} = {y \<in> set store. key y \<noteq> key x}"
  by (induction store) auto

lemma keys_idb_put:
  "key ` set (idb_put key x store) = insert (key x) (key ` set store)"
  by (induction store) auto

lemma distinct_idb_put:
  "distinct (map key store) \<Longrightarrow> distinct (map key (idb_put key x store))"
proof (induction store)
  case Nil
  then show ?case by simp
next
  case (Cons y ys)
  then show ?case by (auto simp: keys_idb_put)
qed

lemma set_idb_put:
  "distinct (map key store) \<Longrightarrow>
     set (idb_put key x store) = insert x {y \<in> set store. key y \<noteq> key x}"
proof (induction store)
  case Nil
  then show ?case by simp
next
  case (Cons y ys)
  then show ?case by (auto simp: rev_image_eqI)
qed

lemma idb_put_single:
  "distinct (map key store) \<Longrightarrow> filter (\<lambda>y. key y = key x) (idb_put key x store) = [x]"
proof (induction store)
  case Nil
  then show ?case by simp
next
  case (Cons y ys)
  show ?case
  proof (cases "key y = key x")
    case True
    then have "key x \<notin> key ` set ys" using Cons.prems by auto
    then have "filter (\<lambda>y. key y = key x) ys = []"
      by (fastforce simp: filter_empty_conv image_iff)
    with True show ?thesis by simp
  next
    case False
    then show ?thesis using Cons by simp
  qed
qed

lemma keys_put_all:
  "key ` set (put_all key items store) = key ` set items \<union> key ` set store"
  unfolding put_all_def
  by (induction items arbitrary: store) (auto simp: keys_idb_put)

lemma set_put_all:
  "distinct (map key store) \<Longrightarrow> distinct (map key items) \<Longrightarrow>
     set (put_all key items store) = set items \<union> {y \<in> set store. key y \<notin> key ` set items}"
  unfolding put_all_def
proof (induction items arbitrary: store)
  case Nil
  then show ?case by simp
next
  case (Cons x xs)
  have d: "distinct (map key (idb_put key x store))"
    using Cons.prems(1) by (rule distinct_idb_put)
  have "set (fold (idb_put key) xs (idb_put key x store))
          = set xs \<union> {y \<in> set (idb_put key x store). key y \<notin> key ` set xs}"
    using Cons.IH [OF d] Cons.prems(2) by simp
  also have "\<dots> = set (x # xs) \<union> {y \<in> set store. key y \<notin> key ` set (x # xs)}"
    using Cons.prems by (auto simp: set_idb_put)
  finally show ?case by simp
qed

lemma delete_all_filter:
  "delete_all key items store = filter (\<lambda>y. key y \<notin> key ` set items) store"
  unfolding delete_all_def
  by (induction items arbitrary: store) (auto simp: idb_delete_def intro: filter_cong)

lemma delete_all_self: "delete_all key store store = []"
  by (simp add: delete_all_filter)

lemma idb_delete_absent: "k \<notin> key ` set (idb_delete key k store)"
  by (auto simp: idb_delete_def)

section \<open>Properties of the remote store adapter\<close>

text \<open>
  C6. For every path and value, no operation of the adapter (\<open>save\<close>, \<open>get\<close>, \<open>delete\<close>,
  \<open>listen\<close>) hands a failure to its caller: each returns normally, and when the adapter
  is not ready or the SDK call throws, \<open>save\<close> and \<open>delete\<close> leave the database as it
  was, \<open>get\<close> returns \<open>null\<close>, and \<open>listen\<close> attaches nothing and returns an unsubscribe
  function that does nothing.
\<close>

theorem firebaseSync_never_propagates:
  "(\<exists>db'. firebaseSync_save c fb path v db = Inr db'
           \<and> (\<not> isFirebaseReady fb \<or> set_throws c \<longrightarrow> db' = db))
   \<and> (\<exists>r. firebaseSync_get c fb path db = Inr r
           \<and> (\<not> isFirebaseReady fb \<or> get_throws c \<longrightarrow> r = None))
   \<and> (\<exists>db'. firebaseSync_delete c fb path db = Inr db'
           \<and> (\<not> isFirebaseReady fb \<or> remove_throws c \<longrightarrow> db' = db))
   \<and> (\<exists>u ls'. firebaseSync_listen c fb path ls = Inr (u, ls')
           \<and> (\<not> isFirebaseReady fb \<or> onValue_throws c
                \<longrightarrow> u = NoOp \<and> ls' = ls \<and> (\<forall>l. run_unsubscribe u l = l)))"
  by (simp add: firebaseSync_save_def firebaseSync_get_def firebaseSync_delete_def
        firebaseSync_listen_def sdk_set_def sdk_get_def sdk_remove_def sdk_onValue_def
        run_unsubscribe_def)

theorem firebaseSync_never_propagates_witness:
  "isFirebaseReady ex_ready \<and> set_throws ex_offline \<and> get_throws ex_offline
   \<and> remove_throws ex_offline \<and> onValue_throws ex_offline
   \<and> firebaseSync_save ex_offline ex_ready ''todos'' [(''t1'', ex_todo)]
        [(''shared/todos'', [(''t2'', ex_todo2)])]
        = Inr [(''shared/todos'', [(''t2'', ex_todo2)])]
   \<and> firebaseSync_get ex_offline ex_ready ''todos'' [(''shared/todos'', [(''t2'', ex_todo2)])]
        = Inr None
   \<and> firebaseSync_delete ex_offline ex_ready ''todos'' [(''shared/todos'', [(''t2'', ex_todo2)])]
        = Inr [(''shared/todos'', [(''t2'', ex_todo2)])]
   \<and> firebaseSync_listen ex_offline ex_ready ''todos'' [] = Inr (NoOp, [])"
  using firebaseSync_never_propagates [of ex_offline ex_ready "''todos''" "[(''t1'', ex_todo)]"
          "[(''shared/todos'', [(''t2'', ex_todo2)])]" "[]"]
  by (auto simp add: ex_offline_def ex_ready_def isFirebaseReady_def)

section \<open>Properties of Read-all\<close>

lemma getAllMemories_remote_empty:
  assumes "isFirebaseReady (firebase w)" "\<not> idb_rejects c"
    and "get_throws c \<or> remote_memories w = None \<or> remote_memories w = Some []"
  shows "getAllMemories c w =
           (Inr [], log (SyncGet ''memories'' # IdbGetAll STORE_MEMORIES
                          # map (\<lambda>m. IdbDelete STORE_MEMORIES (m_id m)) (idb_memories w))
                      (w\<lparr>idb_memories := []\<rparr>))"
  using assms
  by (auto simp: getAllMemories_def firebaseSync_get_def sdk_get_def remote_memories_def
      Let_def log_def delete_all_self)

lemma getAllTodos_remote_empty:
  assumes "isFirebaseReady (firebase w)" "\<not> idb_rejects c"
    and "get_throws c \<or> remote_todos w = None \<or> remote_todos w = Some []"
  shows "getAllTodos c w =
           (Inr [], log (SyncGet ''todos'' # IdbGetAll STORE_TODOS
                          # map (\<lambda>t. IdbDelete STORE_TODOS (t_id t)) (idb_todos w))
                      (w\<lparr>idb_todos := []\<rparr>))"
  using assms
  by (auto simp: getAllTodos_def firebaseSync_get_def sdk_get_def remote_todos_def
      Let_def log_def delete_all_self)

text \<open>
  C2. Whatever the local collection holds, Read-all with the remote store reachable and
  the remote collection empty returns the empty list and leaves the local collection
  empty, having issued a local delete for each of its items.
\<close>

theorem getAll_remote_empty_clears_local:
  assumes "isFirebaseReady (firebase w)" and "\<not> get_throws c" and "\<not> idb_rejects c"
  shows "(remote_memories w = None \<or> remote_memories w = Some [] \<longrightarrow>
            fst (getAllMemories c w) = Inr [] \<and> idb_memories (snd (getAllMemories c w)) = []
            \<and> set (map (\<lambda>m. IdbDelete STORE_MEMORIES (m_id m)) (idb_memories w))
                \<subseteq> set (trace (snd (getAllMemories c w))))
       \<and> (remote_todos w = None \<or> remote_todos w = Some [] \<longrightarrow>
            fst (getAllTodos c w) = Inr [] \<and> idb_todos (snd (getAllTodos c w)) = []
            \<and> set (map (\<lambda>t. IdbDelete STORE_TODOS (t_id t)) (idb_todos w))
                \<subseteq> set (trace (snd (getAllTodos c w))))"
  using assms
  by (auto simp: getAllMemories_remote_empty getAllTodos_remote_empty log_def)

theorem getAll_remote_empty_clears_local_witness:
  "isFirebaseReady (firebase ex_local_only) \<and> \<not> get_throws ex_online \<and> \<not> idb_rejects ex_online
   \<and> remote_memories ex_local_only = None \<and> remote_todos ex_local_only = None
   \<and> length (idb_memories ex_local_only) = 2 \<and> length (idb_todos ex_local_only) = 2
   \<and> fst (getAllMemories ex_online ex_local_only) = Inr []
   \<and> idb_memories (snd (getAllMemories ex_online ex_local_only)) = []
   \<and> fst (getAllTodos ex_online ex_local_only) = Inr []
   \<and> idb_todos (snd (getAllTodos ex_online ex_local_only)) = []"
proof -
  have h: "isFirebaseReady (firebase ex_local_only)" "\<not> get_throws ex_online"
    "\<not> idb_rejects ex_online"
    by (simp_all add: ex_local_only_def ex_ready_def ex_online_def isFirebaseReady_def)
  have e: "remote_memories ex_local_only = None" "remote_todos ex_local_only = None"
    by (simp_all add: ex_local_only_def remote_memories_def remote_todos_def)
  have n: "length (idb_memories ex_local_only) = 2" "length (idb_todos ex_local_only) = 2"
    by (simp_all add: ex_local_only_def)
  from getAll_remote_empty_clears_local [OF h] e h n show ?thesis by simp
qed

lemma js_Map_present:
  assumes "distinct (map key xs)" and "x \<in> set xs"
  shows "js_Map (map (\<lambda>m. (key m, m)) xs) (key x) = Some x"
proof -
  have "distinct (map fst (rev (map (\<lambda>m. (key m, m)) xs)))"
    using assms(1) by (simp add: rev_map [symmetric] comp_def)
  moreover have "(key x, x) \<in> set (rev (map (\<lambda>m. (key m, m)) xs))"
    using assms(2) by auto
  ultimately show ?thesis
    unfolding js_Map_def by (simp only: map_of_eq_Some_iff)
qed

lemma js_Map_absent:
  "k \<notin> key ` set xs \<Longrightarrow> js_Map (map (\<lambda>m. (key m, m)) xs) k = None"
  unfolding js_Map_def by (simp add: map_of_eq_None_iff image_image)

lemma enhance_keeps:
  "m_id (enhance localMap fbMemory) = m_id fbMemory"
  "m_type (enhance localMap fbMemory) = m_type fbMemory"
  "m_caption (enhance localMap fbMemory) = m_caption fbMemory"
  "m_date (enhance localMap fbMemory) = m_date fbMemory"
  by (simp_all add: enhance_def split: option.splits)

lemma enhance_plain:
  "localMap (m_id fbMemory) = None \<or>
     (\<exists>l. localMap (m_id fbMemory) = Some l \<and> \<not> prefix ''data:'' (m_url l)) \<Longrightarrow>
     enhance localMap fbMemory = fbMemory"
  by (auto simp add: enhance_def)

lemma getAllMemories_remote_nonempty:
  assumes "isFirebaseReady (firebase w)" "\<not> get_throws c" "\<not> idb_rejects c"
    and "remote_memories w = Some data" "data \<noteq> []"
  shows "fst (getAllMemories c w) =
           Inr (map (enhance (js_Map (map (\<lambda>m. (m_id m, m)) (idb_memories w)))) (map snd data))"
proof -
  obtain d ds where "data = d # ds" using assms(5) by (cases data) auto
  then show ?thesis
    using assms(1-4)
    by (simp add: getAllMemories_def firebaseSync_get_def sdk_get_def remote_memories_def
        Let_def log_def)
qed

lemma prune_put_all:
  assumes "distinct (map key store)" "distinct (map key items)"
  shows "set (delete_all key (filter (\<lambda>t. key t \<notin> set (map key items)) (put_all key items store))
                (put_all key items store)) = set items"
proof -
  have s: "set (put_all key items store)
             = set items \<union> {y \<in> set store. key y \<notin> key ` set items}"
    using assms by (rule set_put_all)
  show ?thesis
    unfolding delete_all_filter using s by (fastforce simp: image_iff)
qed

lemma getAllTodos_remote_nonempty:
  assumes "isFirebaseReady (firebase w)" "\<not> get_throws c" "\<not> idb_rejects c"
    and "remote_todos w = Some data" "data \<noteq> []"
  shows "fst (getAllTodos c w) = Inr (map snd data)"
    and "idb_todos (snd (getAllTodos c w)) =
           delete_all t_id
             (filter (\<lambda>t. t_id t \<notin> set (map t_id (map snd data)))
                (put_all t_id (map snd data) (idb_todos w)))
             (put_all t_id (map snd data) (idb_todos w))"
proof -
  obtain d ds where "data = d # ds" using assms(5) by (cases data) auto
  then show "fst (getAllTodos c w) = Inr (map snd data)"
    and "idb_todos (snd (getAllTodos c w)) =
           delete_all t_id
             (filter (\<lambda>t. t_id t \<notin> set (map t_id (map snd data)))
                (put_all t_id (map snd data) (idb_todos w)))
             (put_all t_id (map snd data) (idb_todos w))"
    using assms(1-4)
    by (simp_all add: getAllTodos_def firebaseSync_get_def sdk_get_def remote_todos_def
        Let_def log_def del: list.map set_map list.set)
qed

text \<open>
  C1. Read-all with the remote store reachable and the remote collection not empty.
  Memories: the result lists one item per remote item, in order, each with the remote
  id, kind, caption and date; where a local item with the same id exists, the result
  carries the local content reference if that is inline-encoded (starts with \<open>data:\<close>)
  and is the remote item otherwise; where none exists it is the remote item.
  Todos: the result is the list of remote items, unchanged, and (ids being unique on
  both sides) the local collection afterwards holds exactly the remote items.
\<close>

theorem getAll_remote_nonempty_merge:
  assumes "isFirebaseReady (firebase w)" and "\<not> get_throws c" and "\<not> idb_rejects c"
  shows "(\<forall>data. remote_memories w = Some data \<and> data \<noteq> []
                 \<and> distinct (map m_id (idb_memories w)) \<longrightarrow>
           (\<exists>rs. fst (getAllMemories c w) = Inr rs \<and> length rs = length data
              \<and> (\<forall>i < length data.
                    m_id (rs ! i) = m_id (snd (data ! i))
                  \<and> m_type (rs ! i) = m_type (snd (data ! i))
                  \<and> m_caption (rs ! i) = m_caption (snd (data ! i))
                  \<and> m_date (rs ! i) = m_date (snd (data ! i))
                  \<and> (\<forall>l \<in> set (idb_memories w).
                        m_id l = m_id (snd (data ! i)) \<longrightarrow>
                          (if prefix ''data:'' (m_url l) then m_url (rs ! i) = m_url l
                           else rs ! i = snd (data ! i)))
                  \<and> (m_id (snd (data ! i)) \<notin> m_id ` set (idb_memories w) \<longrightarrow>
                        rs ! i = snd (data ! i)))))
       \<and> (\<forall>data. remote_todos w = Some data \<and> data \<noteq> [] \<longrightarrow>
             fst (getAllTodos c w) = Inr (map snd data)
           \<and> (distinct (map t_id (map snd data)) \<and> distinct (map t_id (idb_todos w)) \<longrightarrow>
                set (idb_todos (snd (getAllTodos c w))) = set (map snd data)))"
proof (intro conjI allI impI)
  fix data
  assume a: "remote_memories w = Some data \<and> data \<noteq> [] \<and> distinct (map m_id (idb_memories w))"
  define localMap where "localMap = js_Map (map (\<lambda>m. (m_id m, m)) (idb_memories w))"
  define rs where "rs = map (enhance localMap) (map snd data)"
  have r: "fst (getAllMemories c w) = Inr rs"
    using getAllMemories_remote_nonempty [OF assms, of data] a by (simp add: rs_def localMap_def)
  have item: "m_id (rs ! i) = m_id (snd (data ! i))
                  \<and> m_type (rs ! i) = m_type (snd (data ! i))
                  \<and> m_caption (rs ! i) = m_caption (snd (data ! i))
                  \<and> m_date (rs ! i) = m_date (snd (data ! i))
                  \<and> (\<forall>l \<in> set (idb_memories w).
                        m_id l = m_id (snd (data ! i)) \<longrightarrow>
                          (if prefix ''data:'' (m_url l) then m_url (rs ! i) = m_url l
                           else rs ! i = snd (data ! i)))
                  \<and> (m_id (snd (data ! i)) \<notin> m_id ` set (idb_memories w) \<longrightarrow>
                        rs ! i = snd (data ! i))" if i: "i < length data" for i
  proof -
    have e: "rs ! i = enhance localMap (snd (data ! i))"
      using i by (simp add: rs_def)
    have local: "(if prefix ''data:'' (m_url l) then m_url (rs ! i) = m_url l
                  else rs ! i = snd (data ! i))"
      if "l \<in> set (idb_memories w)" "m_id l = m_id (snd (data ! i))" for l
    proof -
      have "localMap (m_id (snd (data ! i))) = Some l"
        using js_Map_present [of m_id "idb_memories w" l] a that by (simp add: localMap_def)
      then show ?thesis
        unfolding e by (simp add: enhance_def)
    qed
    have missing: "rs ! i = snd (data ! i)"
      if "m_id (snd (data ! i)) \<notin> m_id ` set (idb_memories w)"
      unfolding e using js_Map_absent [OF that] by (simp add: enhance_plain localMap_def)
    from local missing show ?thesis
      unfolding e by (simp add: enhance_keeps)
  qed
  show "\<exists>rs. fst (getAllMemories c w) = Inr rs \<and> length rs = length data
              \<and> (\<forall>i < length data.
                    m_id (rs ! i) = m_id (snd (data ! i))
                  \<and> m_type (rs ! i) = m_type (snd (data ! i))
                  \<and> m_caption (rs ! i) = m_caption (snd (data ! i))
                  \<and> m_date (rs ! i) = m_date (snd (data ! i))
                  \<and> (\<forall>l \<in> set (idb_memories w).
                        m_id l = m_id (snd (data ! i)) \<longrightarrow>
                          (if prefix ''data:'' (m_url l) then m_url (rs ! i) = m_url l
                           else rs ! i = snd (data ! i)))
                  \<and> (m_id (snd (data ! i)) \<notin> m_id ` set (idb_memories w) \<longrightarrow>
                        rs ! i = snd (data ! i)))"
  proof (intro exI [of _ rs] conjI)
    show "fst (getAllMemories c w) = Inr rs" by (rule r)
    show "length rs = length data" by (simp add: rs_def)
    show "\<forall>i < length data.
                    m_id (rs ! i) = m_id (snd (data ! i))
                  \<and> m_type (rs ! i) = m_type (snd (data ! i))
                  \<and> m_caption (rs ! i) = m_caption (snd (data ! i))
                  \<and> m_date (rs ! i) = m_date (snd (data ! i))
                  \<and> (\<forall>l \<in> set (idb_memories w).
                        m_id l = m_id (snd (data ! i)) \<longrightarrow>
                          (if prefix ''data:'' (m_url l) then m_url (rs ! i) = m_url l
                           else rs ! i = snd (data ! i)))
                  \<and> (m_id (snd (data ! i)) \<notin> m_id ` set (idb_memories w) \<longrightarrow>
                        rs ! i = snd (data ! i))"
      using item by blast
  qed

next
  fix data
  assume a: "remote_todos w = Some data \<and> data \<noteq> []"
  show "fst (getAllTodos c w) = Inr (map snd data)"
    using getAllTodos_remote_nonempty(1) [OF assms, of data] a by simp
next
  fix data
  assume a: "remote_todos w = Some data \<and> data \<noteq> []"
    and d: "distinct (map t_id (map snd data)) \<and> distinct (map t_id (idb_todos w))"
  show "set (idb_todos (snd (getAllTodos c w))) = set (map snd data)"
    using getAllTodos_remote_nonempty(2) [OF assms, of data] a d
      prune_put_all [of t_id "idb_todos w" "map snd data"]
    by simp
qed


theorem getAll_remote_nonempty_merge_witness:
  "isFirebaseReady (firebase ex_stale) \<and> \<not> get_throws ex_online \<and> \<not> idb_rejects ex_online
   \<and> remote_memories ex_stale = Some [(''m1'', ex_photo_remote), (''m2'', ex_clip)]
   \<and> distinct (map m_id (idb_memories ex_stale))
   \<and> ex_photo \<in> set (idb_memories ex_stale) \<and> m_id ex_photo = m_id ex_photo_remote
   \<and> prefix ''data:'' (m_url ex_photo)
   \<and> (\<exists>rs. fst (getAllMemories ex_online ex_stale) = Inr rs \<and> length rs = 2
         \<and> m_url (rs ! 0) = ''data:image/png;base64,AAAA''
         \<and> m_caption (rs ! 0) = Some ''edited'' \<and> m_date (rs ! 0) = ''2025-10-26''
         \<and> rs ! 1 = ex_clip)
   \<and> remote_todos ex_stale = Some [(''t1'', ex_todo_remote)]
   \<and> fst (getAllTodos ex_online ex_stale) = Inr [ex_todo_remote]
   \<and> set (idb_todos (snd (getAllTodos ex_online ex_stale))) = {ex_todo_remote}"
proof -
  let ?data = "[(''m1'', ex_photo_remote), (''m2'', ex_clip)]"
  have h: "isFirebaseReady (firebase ex_stale)" "\<not> get_throws ex_online"
    "\<not> idb_rejects ex_online"
    by (simp_all add: ex_stale_def ex_ready_def ex_online_def isFirebaseReady_def)
  have m: "remote_memories ex_stale = Some ?data" "?data \<noteq> []"
    "distinct (map m_id (idb_memories ex_stale))"
    by (simp_all add: ex_stale_def remote_memories_def getSharedPath_def)
  have l: "ex_photo \<in> set (idb_memories ex_stale)" "m_id ex_photo = m_id ex_photo_remote"
    "prefix ''data:'' (m_url ex_photo)"
    "m_id ex_clip \<notin> m_id ` set (idb_memories ex_stale)"
    by (simp_all add: ex_stale_def ex_photo_def ex_photo_remote_def ex_clip_def)
  have t: "remote_todos ex_stale = Some [(''t1'', ex_todo_remote)]"
    "distinct (map t_id (map snd [(''t1'', ex_todo_remote)]))"
    "distinct (map t_id (idb_todos ex_stale))"
    by (simp_all add: ex_stale_def remote_todos_def getSharedPath_def ex_todo_def ex_todo2_def)
  note T = getAll_remote_nonempty_merge [OF h]
  from T m obtain rs where rs: "fst (getAllMemories ex_online ex_stale) = Inr rs"
    "length rs = length ?data"
    "\<forall>i < length ?data.
        m_id (rs ! i) = m_id (snd (?data ! i))
      \<and> m_type (rs ! i) = m_type (snd (?data ! i))
      \<and> m_caption (rs ! i) = m_caption (snd (?data ! i))
      \<and> m_date (rs ! i) = m_date (snd (?data ! i))
      \<and> (\<forall>l \<in> set (idb_memories ex_stale).
            m_id l = m_id (snd (?data ! i)) \<longrightarrow>
              (if prefix ''data:'' (m_url l) then m_url (rs ! i) = m_url l
               else rs ! i = snd (?data ! i)))
      \<and> (m_id (snd (?data ! i)) \<notin> m_id ` set (idb_memories ex_stale) \<longrightarrow>
            rs ! i = snd (?data ! i))"
    by blast
  from rs(3) [rule_format, of 0] l have r0: "m_url (rs ! 0) = m_url ex_photo"
    "m_caption (rs ! 0) = m_caption ex_photo_remote" "m_date (rs ! 0) = m_date ex_photo_remote"
    by auto
  from rs(3) [rule_format, of 1] l have r1: "rs ! 1 = ex_clip"
    by simp
  from T t have td: "fst (getAllTodos ex_online ex_stale) = Inr [ex_todo_remote]"
    "set (idb_todos (snd (getAllTodos ex_online ex_stale))) = {ex_todo_remote}"
    by auto
  from rs(1,2) r0 r1 have
    "\<exists>rs. fst (getAllMemories ex_online ex_stale) = Inr rs \<and> length rs = 2
         \<and> m_url (rs ! 0) = ''data:image/png;base64,AAAA''
         \<and> m_caption (rs ! 0) = Some ''edited'' \<and> m_date (rs ! 0) = ''2025-10-26''
         \<and> rs ! 1 = ex_clip"
    by (intro exI [of _ rs]) (simp add: ex_photo_def ex_photo_remote_def)
  with h m l t td show ?thesis by simp
qed

section \<open>Properties of Save\<close>

lemma js_assign_idem: "js_assign k v (js_assign k v obj) = js_assign k v obj"
  by (cases "k = ''__proto__'' \<and> map_of obj k = None") (auto simp: js_assign_def update_conv')

lemma js_assign_entry:
  "k \<noteq> ''__proto__'' \<Longrightarrow> map_of (js_assign k v obj) k = Some v"
  by (simp add: js_assign_def update_conv')

lemma sync_todo_eq:
  "sync_todo c todo w =
     log [SyncGet ''todos'', SyncSave ''todos'']
       (w\<lparr>rtdb_todos :=
            (if isFirebaseReady (firebase w) \<and> \<not> set_throws c
             then AList.update (getSharedPath ''todos'')
                    (js_assign (t_id todo) todo
                       (case (if isFirebaseReady (firebase w) \<and> \<not> get_throws c
                              then remote_todos w else None) of
                          Some obj \<Rightarrow> obj | None \<Rightarrow> []))
                    (rtdb_todos w)
             else rtdb_todos w)\<rparr>)"
  by (simp add: sync_todo_def firebaseSync_get_def firebaseSync_save_def sdk_get_def
      sdk_set_def remote_todos_def Let_def)

lemma sync_memory_eq:
  "sync_memory c k m w =
     log [SyncGet ''memories'', SyncSave ''memories'']
       (w\<lparr>rtdb_memories :=
            (if isFirebaseReady (firebase w) \<and> \<not> set_throws c
             then AList.update (getSharedPath ''memories'')
                    (js_assign k m
                       (case (if isFirebaseReady (firebase w) \<and> \<not> get_throws c
                              then remote_memories w else None) of
                          Some obj \<Rightarrow> obj | None \<Rightarrow> []))
                    (rtdb_memories w)
             else rtdb_memories w)\<rparr>)"
  by (simp add: sync_memory_def firebaseSync_get_def firebaseSync_save_def sdk_get_def
      sdk_set_def remote_memories_def Let_def)

lemma saveTodo_eq:
  "saveTodo c todo w =
     (if idb_rejects c then (Inl IdbError, log [IdbPut STORE_TODOS (t_id todo)] w)
      else (Inr (t_id todo),
            (if isFirebaseReady (firebase w) then sync_todo c todo else (\<lambda>w. w))
              (log [IdbPut STORE_TODOS (t_id todo)]
                 (w\<lparr>idb_todos := idb_put t_id todo (idb_todos w)\<rparr>))))"
  by (simp add: saveTodo_def Let_def log_def)

lemma saveTodo_trace:
  "\<not> idb_rejects c \<Longrightarrow>
     trace (snd (saveTodo c todo w)) =
       trace w @ IdbPut STORE_TODOS (t_id todo)
         # (if isFirebaseReady (firebase w) then [SyncGet ''todos'', SyncSave ''todos''] else [])"
  by (simp add: saveTodo_eq sync_todo_eq log_def)

lemma saveMemory_trace:
  "\<not> idb_rejects c \<Longrightarrow>
     trace (snd (saveMemory c memory w)) =
       trace w @ IdbPut STORE_MEMORIES (m_id memory)
         # (if isFirebaseReady (firebase w)
            then (if prefix ''data:'' (m_url memory)
                  then UploadMedia (m_id memory)
                         # (case uploadMedia c (firebase w) (m_url memory) (m_id memory)
                                   (m_type memory) of
                              None \<Rightarrow> []
                            | Some u \<Rightarrow> if u \<noteq> [] then [SyncGet ''memories'', SyncSave ''memories'']
                                        else [])
                  else [SyncGet ''memories'', SyncSave ''memories''])
            else [])"
  by (simp add: saveMemory_def sync_memory_eq log_def Let_def split: option.splits)

lemma saveMemory_local:
  "\<not> idb_rejects c \<Longrightarrow>
     fst (saveMemory c memory w) = Inr (m_id memory)
     \<and> idb_memories (snd (saveMemory c memory w)) = idb_put m_id memory (idb_memories w)"
  by (simp add: saveMemory_def sync_memory_eq log_def Let_def split: option.splits)

text \<open>
  C4. Save writes the item to the local store before it calls anything else (the local
  put is the first call it adds to the trace, and every later call is a remote one).
  If the local put rejects, Save rejects with that error and has called nothing else.
  If it succeeds, the item is in the local store, the records with other ids are the
  ones that were there and, ids being unique, the item is the one record with its id;
  Save resolves with the key the put returned, whatever the adapter's state and
  whatever the remote calls did; and when the adapter is ready (and, for a memory, the
  content reference is not inline) the remote read and write have both been made by
  the time Save resolves.
\<close>

theorem save_resolves_with_local_result:
  "(idb_rejects c \<longrightarrow>
      saveTodo c todo w = (Inl IdbError, log [IdbPut STORE_TODOS (t_id todo)] w)
    \<and> saveMemory c memory w = (Inl IdbError, log [IdbPut STORE_MEMORIES (m_id memory)] w))
   \<and> (\<not> idb_rejects c \<longrightarrow>
        fst (saveTodo c todo w) = Inr (t_id todo)
      \<and> idb_todos (snd (saveTodo c todo w)) = idb_put t_id todo (idb_todos w)
      \<and> todo \<in> set (idb_todos (snd (saveTodo c todo w)))
      \<and> {x \<in> set (idb_todos (snd (saveTodo c todo w))). t_id x \<noteq> t_id todo}
          = {x \<in> set (idb_todos w). t_id x \<noteq> t_id todo}
      \<and> (distinct (map t_id (idb_todos w)) \<longrightarrow>
            filter (\<lambda>x. t_id x = t_id todo) (idb_todos (snd (saveTodo c todo w))) = [todo])
      \<and> (\<exists>rest. trace (snd (saveTodo c todo w))
                   = trace w @ IdbPut STORE_TODOS (t_id todo) # rest
               \<and> set rest \<subseteq> {SyncGet ''todos'', SyncSave ''todos''}
               \<and> (isFirebaseReady (firebase w) \<longrightarrow>
                     rest = [SyncGet ''todos'', SyncSave ''todos'']))
      \<and> fst (saveMemory c memory w) = Inr (m_id memory)
      \<and> idb_memories (snd (saveMemory c memory w)) = idb_put m_id memory (idb_memories w)
      \<and> memory \<in> set (idb_memories (snd (saveMemory c memory w)))
      \<and> {x \<in> set (idb_memories (snd (saveMemory c memory w))). m_id x \<noteq> m_id memory}
          = {x \<in> set (idb_memories w). m_id x \<noteq> m_id memory}
      \<and> (distinct (map m_id (idb_memories w)) \<longrightarrow>
            filter (\<lambda>x. m_id x = m_id memory) (idb_memories (snd (saveMemory c memory w)))
              = [memory])
      \<and> (\<exists>rest. trace (snd (saveMemory c memory w))
                   = trace w @ IdbPut STORE_MEMORIES (m_id memory) # rest
               \<and> set rest \<subseteq> {UploadMedia (m_id memory), SyncGet ''memories'',
                                SyncSave ''memories''}
               \<and> (isFirebaseReady (firebase w) \<and> \<not> prefix ''data:'' (m_url memory) \<longrightarrow>
                     rest = [SyncGet ''memories'', SyncSave ''memories''])))"
proof (intro conjI impI)
  assume "idb_rejects c"
  then show "saveTodo c todo w = (Inl IdbError, log [IdbPut STORE_TODOS (t_id todo)] w)"
    and "saveMemory c memory w = (Inl IdbError, log [IdbPut STORE_MEMORIES (m_id memory)] w)"
    by (simp_all add: saveTodo_def saveMemory_def)
next
  assume ok: "\<not> idb_rejects c"
  show "fst (saveTodo c todo w) = Inr (t_id todo)"
    using ok by (simp add: saveTodo_eq)
  show lt: "idb_todos (snd (saveTodo c todo w)) = idb_put t_id todo (idb_todos w)"
    using ok by (simp add: saveTodo_eq sync_todo_eq log_def)
  show "todo \<in> set (idb_todos (snd (saveTodo c todo w)))"
    unfolding lt by (rule idb_put_mem)
  show "{x \<in> set (idb_todos (snd (saveTodo c todo w))). t_id x \<noteq> t_id todo}
          = {x \<in> set (idb_todos w). t_id x \<noteq> t_id todo}"
    unfolding lt by (rule idb_put_others)
  show "filter (\<lambda>x. t_id x = t_id todo) (idb_todos (snd (saveTodo c todo w))) = [todo]"
    if "distinct (map t_id (idb_todos w))"
    unfolding lt using that by (rule idb_put_single)
  show "\<exists>rest. trace (snd (saveTodo c todo w))
                   = trace w @ IdbPut STORE_TODOS (t_id todo) # rest
               \<and> set rest \<subseteq> {SyncGet ''todos'', SyncSave ''todos''}
               \<and> (isFirebaseReady (firebase w) \<longrightarrow>
                     rest = [SyncGet ''todos'', SyncSave ''todos''])"
    unfolding saveTodo_trace [OF ok] by auto
  show "fst (saveMemory c memory w) = Inr (m_id memory)"
    and lm: "idb_memories (snd (saveMemory c memory w)) = idb_put m_id memory (idb_memories w)"
    using saveMemory_local [OF ok] by simp_all
  show "memory \<in> set (idb_memories (snd (saveMemory c memory w)))"
    unfolding lm by (rule idb_put_mem)
  show "{x \<in> set (idb_memories (snd (saveMemory c memory w))). m_id x \<noteq> m_id memory}
          = {x \<in> set (idb_memories w). m_id x \<noteq> m_id memory}"
    unfolding lm by (rule idb_put_others)
  show "filter (\<lambda>x. m_id x = m_id memory) (idb_memories (snd (saveMemory c memory w)))
          = [memory]"
    if "distinct (map m_id (idb_memories w))"
    unfolding lm using that by (rule idb_put_single)
  show "\<exists>rest. trace (snd (saveMemory c memory w))
                   = trace w @ IdbPut STORE_MEMORIES (m_id memory) # rest
               \<and> set rest \<subseteq> {UploadMedia (m_id memory), SyncGet ''memories'',
                                SyncSave ''memories''}
               \<and> (isFirebaseReady (firebase w) \<and> \<not> prefix ''data:'' (m_url memory) \<longrightarrow>
                     rest = [SyncGet ''memories'', SyncSave ''memories''])"
    unfolding saveMemory_trace [OF ok] by (auto split: option.splits)
qed

theorem save_resolves_with_local_result_witness:
  "idb_rejects ex_idb_broken \<and> \<not> idb_rejects ex_offline
   \<and> isFirebaseReady (firebase ex_stale) \<and> \<not> prefix ''data:'' (m_url ex_clip)
   \<and> idb_todos ex_stale = [ex_todo, ex_todo2] \<and> idb_memories ex_stale = [ex_photo]
   \<and> distinct (map t_id (idb_todos ex_stale)) \<and> distinct (map m_id (idb_memories ex_stale))
   \<and> fst (saveTodo ex_idb_broken ex_todo_remote ex_stale) = Inl IdbError
   \<and> fst (saveMemory ex_idb_broken ex_clip ex_stale) = Inl IdbError
   \<and> idb_todos (snd (saveTodo ex_idb_broken ex_todo_remote ex_stale)) = [ex_todo, ex_todo2]
   \<and> rtdb_todos (snd (saveTodo ex_idb_broken ex_todo_remote ex_stale)) = rtdb_todos ex_stale
   \<and> fst (saveTodo ex_offline ex_todo_remote ex_stale) = Inr ''t1''
   \<and> fst (saveMemory ex_offline ex_clip ex_stale) = Inr ''m2''
   \<and> idb_todos (snd (saveTodo ex_offline ex_todo_remote ex_stale)) = [ex_todo_remote, ex_todo2]
   \<and> idb_memories (snd (saveMemory ex_offline ex_clip ex_stale)) = [ex_photo, ex_clip]
   \<and> ex_todo_remote \<in> set (idb_todos (snd (saveTodo ex_offline ex_todo_remote ex_stale)))
   \<and> ex_clip \<in> set (idb_memories (snd (saveMemory ex_offline ex_clip ex_stale)))
   \<and> filter (\<lambda>x. t_id x = ''t1'') (idb_todos (snd (saveTodo ex_offline ex_todo_remote ex_stale)))
       = [ex_todo_remote]
   \<and> trace (snd (saveTodo ex_offline ex_todo_remote ex_stale))
       = [IdbPut STORE_TODOS ''t1'', SyncGet ''todos'', SyncSave ''todos'']
   \<and> trace (snd (saveMemory ex_offline ex_clip ex_stale))
       = [IdbPut STORE_MEMORIES ''m2'', SyncGet ''memories'', SyncSave ''memories'']"
proof -
  have h: "idb_rejects ex_idb_broken" "\<not> idb_rejects ex_offline"
    "isFirebaseReady (firebase ex_stale)" "\<not> prefix ''data:'' (m_url ex_clip)"
    by (simp_all add: ex_idb_broken_def ex_offline_def ex_stale_def ex_ready_def
        isFirebaseReady_def ex_clip_def)
  have v: "t_id ex_todo_remote = ''t1''" "m_id ex_clip = ''m2''" "trace ex_stale = []"
    "idb_todos ex_stale = [ex_todo, ex_todo2]" "idb_memories ex_stale = [ex_photo]"
    by (simp_all add: ex_todo_remote_def ex_clip_def ex_stale_def)
  have i: "t_id ex_todo = ''t1''" "t_id ex_todo2 = ''t2''" "m_id ex_photo = ''m1''"
    by (simp_all add: ex_todo_def ex_todo2_def ex_photo_def)
  have d: "distinct (map t_id (idb_todos ex_stale))" "distinct (map m_id (idb_memories ex_stale))"
    by (simp_all add: v i)
  from save_resolves_with_local_result [of ex_idb_broken ex_todo_remote ex_stale ex_clip] h
  have a: "saveTodo ex_idb_broken ex_todo_remote ex_stale
             = (Inl IdbError, log [IdbPut STORE_TODOS (t_id ex_todo_remote)] ex_stale)"
    "saveMemory ex_idb_broken ex_clip ex_stale
             = (Inl IdbError, log [IdbPut STORE_MEMORIES (m_id ex_clip)] ex_stale)"
    by simp_all
  from save_resolves_with_local_result [of ex_offline ex_todo_remote ex_stale ex_clip] h v d
  have b: "fst (saveTodo ex_offline ex_todo_remote ex_stale) = Inr ''t1''"
    "fst (saveMemory ex_offline ex_clip ex_stale) = Inr ''m2''"
    "idb_todos (snd (saveTodo ex_offline ex_todo_remote ex_stale))
       = idb_put t_id ex_todo_remote [ex_todo, ex_todo2]"
    "idb_memories (snd (saveMemory ex_offline ex_clip ex_stale))
       = idb_put m_id ex_clip [ex_photo]"
    "ex_todo_remote \<in> set (idb_todos (snd (saveTodo ex_offline ex_todo_remote ex_stale)))"
    "ex_clip \<in> set (idb_memories (snd (saveMemory ex_offline ex_clip ex_stale)))"
    "filter (\<lambda>x. t_id x = ''t1'') (idb_todos (snd (saveTodo ex_offline ex_todo_remote ex_stale)))
       = [ex_todo_remote]"
    "trace (snd (saveTodo ex_offline ex_todo_remote ex_stale))
       = [IdbPut STORE_TODOS ''t1'', SyncGet ''todos'', SyncSave ''todos'']"
    "trace (snd (saveMemory ex_offline ex_clip ex_stale))
       = [IdbPut STORE_MEMORIES ''m2'', SyncGet ''memories'', SyncSave ''memories'']"
    by auto
  have p: "idb_put t_id ex_todo_remote [ex_todo, ex_todo2] = [ex_todo_remote, ex_todo2]"
    "idb_put m_id ex_clip [ex_photo] = [ex_photo, ex_clip]"
    by (simp_all add: v i)
  from a b h v d show ?thesis unfolding p by (simp add: log_def)
qed

lemma saveMemory_upload_failed:
  assumes "prefix ''data:'' (m_url memory)" "\<not> idb_rejects c" "isFirebaseReady (firebase w)"
    and "uploadMedia c (firebase w) (m_url memory) (m_id memory) (m_type memory) = None
         \<or> uploadMedia c (firebase w) (m_url memory) (m_id memory) (m_type memory) = Some []"
  shows "snd (saveMemory c memory w) =
           log [IdbPut STORE_MEMORIES (m_id memory), UploadMedia (m_id memory)]
             (w\<lparr>idb_memories := idb_put m_id memory (idb_memories w)\<rparr>)"
  using assms by (auto simp add: saveMemory_def Let_def log_def)

lemma saveMemory_uploaded:
  assumes "prefix ''data:'' (m_url memory)" "\<not> idb_rejects c" "isFirebaseReady (firebase w)"
    and "uploadMedia c (firebase w) (m_url memory) (m_id memory) (m_type memory) = Some u"
    and "u \<noteq> []"
  shows "snd (saveMemory c memory w) =
           sync_memory c (m_id memory) (memory\<lparr>m_url := u\<rparr>)
             (log [IdbPut STORE_MEMORIES (m_id memory), UploadMedia (m_id memory)]
                (w\<lparr>idb_memories := idb_put m_id memory (idb_memories w)\<rparr>))"
  using assms by (simp add: saveMemory_def Let_def log_def)

text \<open>
  C5. Save of a memory whose content reference is inline-encoded, with the adapter
  ready and the local put succeeding: the upload is attempted right after the local put
  and before any call to the remote store; if it returns \<open>null\<close> (or no URL) the
  remote store is neither read nor written and Save still resolves with the local
  result; if it returns a URL, the remote read and write follow, what is assigned under
  the id of the memory in the collection written back is the memory with the URL in
  place of the inline data (so that, when the write goes through, the remote
  collection holds that copy under the id, for every id but \<open>__proto__\<close>), and the
  local store holds the memory as given, inline data included.
\<close>

theorem saveMemory_inline_uploads_first:
  assumes "prefix ''data:'' (m_url memory)" and "\<not> idb_rejects c"
    and "isFirebaseReady (firebase w)"
  shows "fst (saveMemory c memory w) = Inr (m_id memory)
       \<and> idb_memories (snd (saveMemory c memory w)) = idb_put m_id memory (idb_memories w)
       \<and> memory \<in> set (idb_memories (snd (saveMemory c memory w)))
       \<and> (uploadMedia c (firebase w) (m_url memory) (m_id memory) (m_type memory) = None
          \<or> uploadMedia c (firebase w) (m_url memory) (m_id memory) (m_type memory) = Some []
          \<longrightarrow>
            trace (snd (saveMemory c memory w))
              = trace w @ [IdbPut STORE_MEMORIES (m_id memory), UploadMedia (m_id memory)]
          \<and> rtdb_memories (snd (saveMemory c memory w)) = rtdb_memories w)
       \<and> (\<forall>u. uploadMedia c (firebase w) (m_url memory) (m_id memory) (m_type memory) = Some u
               \<and> u \<noteq> [] \<longrightarrow>
            trace (snd (saveMemory c memory w))
              = trace w @ [IdbPut STORE_MEMORIES (m_id memory), UploadMedia (m_id memory),
                           SyncGet ''memories'', SyncSave ''memories'']
          \<and> (\<not> set_throws c \<longrightarrow>
                entries_of (remote_memories (snd (saveMemory c memory w)))
                  = js_assign (m_id memory) (memory\<lparr>m_url := u\<rparr>)
                      (if get_throws c then [] else entries_of (remote_memories w))
              \<and> (m_id memory \<noteq> ''__proto__'' \<longrightarrow>
                    (\<exists>obj. remote_memories (snd (saveMemory c memory w)) = Some obj
                          \<and> map_of obj (m_id memory) = Some (memory\<lparr>m_url := u\<rparr>))))
          \<and> (set_throws c \<longrightarrow>
                rtdb_memories (snd (saveMemory c memory w)) = rtdb_memories w))"
proof (intro conjI impI allI)
  show "fst (saveMemory c memory w) = Inr (m_id memory)"
    and l: "idb_memories (snd (saveMemory c memory w)) = idb_put m_id memory (idb_memories w)"
    using saveMemory_local [OF assms(2)] by simp_all
  show "memory \<in> set (idb_memories (snd (saveMemory c memory w)))"
    unfolding l by (rule idb_put_mem)
next
  assume "uploadMedia c (firebase w) (m_url memory) (m_id memory) (m_type memory) = None
          \<or> uploadMedia c (firebase w) (m_url memory) (m_id memory) (m_type memory) = Some []"
  then have s: "snd (saveMemory c memory w) =
           log [IdbPut STORE_MEMORIES (m_id memory), UploadMedia (m_id memory)]
             (w\<lparr>idb_memories := idb_put m_id memory (idb_memories w)\<rparr>)"
    by (rule saveMemory_upload_failed [OF assms])
  show "trace (snd (saveMemory c memory w))
          = trace w @ [IdbPut STORE_MEMORIES (m_id memory), UploadMedia (m_id memory)]"
    and "rtdb_memories (snd (saveMemory c memory w)) = rtdb_memories w"
    unfolding s by (simp_all add: log_def)
next
  fix u
  assume a: "uploadMedia c (firebase w) (m_url memory) (m_id memory) (m_type memory) = Some u
               \<and> u \<noteq> []"
  then have s: "snd (saveMemory c memory w) =
           sync_memory c (m_id memory) (memory\<lparr>m_url := u\<rparr>)
             (log [IdbPut STORE_MEMORIES (m_id memory), UploadMedia (m_id memory)]
                (w\<lparr>idb_memories := idb_put m_id memory (idb_memories w)\<rparr>))"
    using saveMemory_uploaded [OF assms] by simp
  show "trace (snd (saveMemory c memory w))
          = trace w @ [IdbPut STORE_MEMORIES (m_id memory), UploadMedia (m_id memory),
                       SyncGet ''memories'', SyncSave ''memories'']"
    unfolding s by (simp add: sync_memory_eq log_def)
  show "rtdb_memories (snd (saveMemory c memory w)) = rtdb_memories w" if "set_throws c"
    unfolding s using that by (simp add: sync_memory_eq log_def)
  assume w: "\<not> set_throws c"
  have r: "remote_memories (snd (saveMemory c memory w))
          = Some (js_assign (m_id memory) (memory\<lparr>m_url := u\<rparr>)
                    (if get_throws c then [] else entries_of (remote_memories w)))"
    unfolding s using assms(3) w
    by (simp add: sync_memory_eq log_def remote_memories_def update_conv' entries_of_def)
  show "entries_of (remote_memories (snd (saveMemory c memory w)))
          = js_assign (m_id memory) (memory\<lparr>m_url := u\<rparr>)
              (if get_throws c then [] else entries_of (remote_memories w))"
    unfolding r by (simp add: entries_of_def)
  show "\<exists>obj. remote_memories (snd (saveMemory c memory w)) = Some obj
             \<and> map_of obj (m_id memory) = Some (memory\<lparr>m_url := u\<rparr>)"
    if "m_id memory \<noteq> ''__proto__''"
    unfolding r using that by (simp add: js_assign_entry)
qed

theorem saveMemory_inline_uploads_first_witness:
  "prefix ''data:'' (m_url ex_photo) \<and> \<not> idb_rejects ex_online \<and> \<not> idb_rejects ex_offline
   \<and> isFirebaseReady (firebase ex_local_only) \<and> \<not> set_throws ex_online
   \<and> m_id ex_photo \<noteq> ''__proto__''
   \<and> uploadMedia ex_offline (firebase ex_local_only) (m_url ex_photo) (m_id ex_photo)
        (m_type ex_photo) = None
   \<and> uploadMedia ex_online (firebase ex_local_only) (m_url ex_photo) (m_id ex_photo)
        (m_type ex_photo) = Some ''https://storage.example/memories/m1.png''
   \<and> fst (saveMemory ex_offline ex_photo ex_local_only) = Inr ''m1''
   \<and> trace (snd (saveMemory ex_offline ex_photo ex_local_only))
       = [IdbPut STORE_MEMORIES ''m1'', UploadMedia ''m1'']
   \<and> rtdb_memories (snd (saveMemory ex_offline ex_photo ex_local_only)) = []
   \<and> trace (snd (saveMemory ex_online ex_photo ex_local_only))
       = [IdbPut STORE_MEMORIES ''m1'', UploadMedia ''m1'', SyncGet ''memories'',
          SyncSave ''memories'']
   \<and> ex_photo \<in> set (idb_memories (snd (saveMemory ex_online ex_photo ex_local_only)))
   \<and> (\<exists>obj. remote_memories (snd (saveMemory ex_online ex_photo ex_local_only)) = Some obj
           \<and> map_of obj ''m1''
               = Some (ex_photo\<lparr>m_url := ''https://storage.example/memories/m1.png''\<rparr>))"
proof -
  have h: "prefix ''data:'' (m_url ex_photo)" "\<not> idb_rejects ex_online"
    "\<not> idb_rejects ex_offline" "isFirebaseReady (firebase ex_local_only)"
    "\<not> set_throws ex_online" "m_id ex_photo \<noteq> ''__proto__''"
    by (simp_all add: ex_photo_def ex_online_def ex_offline_def ex_local_only_def ex_ready_def
        isFirebaseReady_def)
  have u: "uploadMedia ex_offline (firebase ex_local_only) (m_url ex_photo) (m_id ex_photo)
             (m_type ex_photo) = None"
    "uploadMedia ex_online (firebase ex_local_only) (m_url ex_photo) (m_id ex_photo)
        (m_type ex_photo) = Some ''https://storage.example/memories/m1.png''"
    by (simp_all add: uploadMedia_def ex_offline_def ex_online_def ex_local_only_def ex_ready_def
        isFirebaseReady_def ex_photo_def storage_path_def extension_def)
  have v: "m_id ex_photo = ''m1''" "trace ex_local_only = []" "rtdb_memories ex_local_only = []"
    by (simp_all add: ex_photo_def ex_local_only_def)
  from saveMemory_inline_uploads_first [OF h(1) h(3) h(4)] u(1) v
  have a: "fst (saveMemory ex_offline ex_photo ex_local_only) = Inr ''m1''"
    "trace (snd (saveMemory ex_offline ex_photo ex_local_only))
       = [IdbPut STORE_MEMORIES ''m1'', UploadMedia ''m1'']"
    "rtdb_memories (snd (saveMemory ex_offline ex_photo ex_local_only)) = []"
    by simp_all
  from saveMemory_inline_uploads_first [OF h(1) h(2) h(4)] u(2) v h(5) h(6)
  have b: "trace (snd (saveMemory ex_online ex_photo ex_local_only))
       = [IdbPut STORE_MEMORIES ''m1'', UploadMedia ''m1'', SyncGet ''memories'',
          SyncSave ''memories'']"
    "ex_photo \<in> set (idb_memories (snd (saveMemory ex_online ex_photo ex_local_only)))"
    "\<exists>obj. remote_memories (snd (saveMemory ex_online ex_photo ex_local_only)) = Some obj
           \<and> map_of obj ''m1''
               = Some (ex_photo\<lparr>m_url := ''https://storage.example/memories/m1.png''\<rparr>)"
    by (simp_all add: idb_put_mem js_assign_entry)
  from h u a b show ?thesis by simp
qed

text \<open>
  Under the id \<open>__proto__\<close> the assignment adds no entry: the collection written back
  is the one that was read.
\<close>

lemma saveMemory_proto_id:
  "items_of (remote_memories (snd (saveMemory ex_online (ex_clip\<lparr>m_id := ''__proto__''\<rparr>)
                                     ex_stale)))
     = [ex_photo_remote, ex_clip]"
  by (simp add: saveMemory_def sync_memory_def firebaseSync_get_def firebaseSync_save_def
      sdk_get_def sdk_set_def js_assign_def ex_online_def ex_stale_def ex_ready_def
      isFirebaseReady_def ex_clip_def getSharedPath_def remote_memories_def items_of_def
      entries_of_def log_def Let_def)

section \<open>Properties of Delete\<close>

lemma enhance_id_image: "m_id ` set (map (enhance localMap) ms) = m_id ` set ms"
  by (simp add: image_image enhance_keeps)

lemma getAllMemories_local:
  "\<not> isFirebaseReady (firebase w) \<Longrightarrow> \<not> idb_rejects c \<Longrightarrow>
     fst (getAllMemories c w) = Inr (idb_memories w)"
  by (simp add: getAllMemories_def local_getAllMemories_def)

lemma getAllTodos_local:
  "\<not> isFirebaseReady (firebase w) \<Longrightarrow> \<not> idb_rejects c \<Longrightarrow>
     fst (getAllTodos c w) = Inr (idb_todos w)"
  by (simp add: getAllTodos_def local_getAllTodos_def)

lemma getAllMemories_ids:
  assumes "isFirebaseReady (firebase w)" "\<not> idb_rejects c"
  shows "\<exists>ms. fst (getAllMemories c w) = Inr ms
           \<and> m_id ` set ms \<subseteq> (if get_throws c then {}
                               else case remote_memories w of
                                      None \<Rightarrow> {} | Some obj \<Rightarrow> m_id ` snd ` set obj)"
proof (cases "get_throws c \<or> remote_memories w = None \<or> remote_memories w = Some []")
  case True
  then show ?thesis
    using getAllMemories_remote_empty [OF assms] by simp
next
  case False
  then obtain data where d: "remote_memories w = Some data" "data \<noteq> []" "\<not> get_throws c"
    by auto
  have "m_id ` set (map (enhance (js_Map (map (\<lambda>m. (m_id m, m)) (idb_memories w))))
                      (map snd data)) = m_id ` snd ` set data"
    unfolding enhance_id_image by simp
  then show ?thesis
    using getAllMemories_remote_nonempty [OF assms(1) d(3) assms(2) d(1,2)] d
    by (intro exI [of _ "map (enhance (js_Map (map (\<lambda>m. (m_id m, m)) (idb_memories w))))
                      (map snd data)"]) (simp del: set_map map_map)
qed

lemma getAllTodos_ids:
  assumes "isFirebaseReady (firebase w)" "\<not> idb_rejects c"
  shows "\<exists>ts. fst (getAllTodos c w) = Inr ts
           \<and> t_id ` set ts \<subseteq> (if get_throws c then {}
                               else case remote_todos w of
                                      None \<Rightarrow> {} | Some obj \<Rightarrow> t_id ` snd ` set obj)"
proof (cases "get_throws c \<or> remote_todos w = None \<or> remote_todos w = Some []")
  case True
  then show ?thesis
    using getAllTodos_remote_empty [OF assms] by simp
next
  case False
  then obtain data where d: "remote_todos w = Some data" "data \<noteq> []" "\<not> get_throws c"
    by auto
  show ?thesis
    using getAllTodos_remote_nonempty(1) [OF assms(1) d(3) assms(2) d(1,2)] d
    by simp
qed

lemma unsync_memory_eq:
  "unsync_memory c k w =
     log [SyncGet ''memories'', SyncSave ''memories'']
       (w\<lparr>rtdb_memories :=
            (if isFirebaseReady (firebase w) \<and> \<not> set_throws c
             then AList.update (getSharedPath ''memories'')
                    (AList.delete k
                       (case (if isFirebaseReady (firebase w) \<and> \<not> get_throws c
                              then remote_memories w else None) of
                          Some obj \<Rightarrow> obj | None \<Rightarrow> []))
                    (rtdb_memories w)
             else rtdb_memories w)\<rparr>)"
  by (simp add: unsync_memory_def firebaseSync_get_def firebaseSync_save_def sdk_get_def
      sdk_set_def remote_memories_def Let_def)

lemma unsync_todo_eq:
  "unsync_todo c k w =
     log [SyncGet ''todos'', SyncSave ''todos'']
       (w\<lparr>rtdb_todos :=
            (if isFirebaseReady (firebase w) \<and> \<not> set_throws c
             then AList.update (getSharedPath ''todos'')
                    (AList.delete k
                       (case (if isFirebaseReady (firebase w) \<and> \<not> get_throws c
                              then remote_todos w else None) of
                          Some obj \<Rightarrow> obj | None \<Rightarrow> []))
                    (rtdb_todos w)
             else rtdb_todos w)\<rparr>)"
  by (simp add: unsync_todo_def firebaseSync_get_def firebaseSync_save_def sdk_get_def
      sdk_set_def remote_todos_def Let_def)

lemma deleteMemory_eq:
  "\<not> idb_rejects c \<Longrightarrow>
     deleteMemory c k w =
       (Inr (), (if isFirebaseReady (firebase w) then unsync_memory c k else (\<lambda>w. w))
                  (log [IdbDelete STORE_MEMORIES k]
                     (w\<lparr>idb_memories := idb_delete m_id k (idb_memories w)\<rparr>)))"
  by (simp add: deleteMemory_def Let_def log_def)

lemma deleteTodo_eq:
  "\<not> idb_rejects c \<Longrightarrow>
     deleteTodo c k w =
       (Inr (), (if isFirebaseReady (firebase w) then unsync_todo c k else (\<lambda>w. w))
                  (log [IdbDelete STORE_TODOS k]
                     (w\<lparr>idb_todos := idb_delete t_id k (idb_todos w)\<rparr>)))"
  by (simp add: deleteTodo_def Let_def log_def)

lemma keyed_delete_ids:
  assumes "keyed_by_id key remote"
  shows "k \<notin> key ` snd ` set (AList.delete k (case remote of Some obj \<Rightarrow> obj | None \<Rightarrow> []))"
  using assms
  by (cases remote) (auto simp: keyed_by_id_def AList.delete_eq list_all_iff)

lemma deleteMemory_then_getAll:
  assumes "\<not> idb_rejects c" "\<not> idb_rejects c'"
    and "isFirebaseReady (firebase w) \<and> \<not> get_throws c' \<and> set_throws c
           \<longrightarrow> k \<notin> m_id ` set (items_of (remote_memories w))"
    and "keyed_by_id m_id (remote_memories w)"
  shows "\<exists>ms. fst (getAllMemories c' (snd (deleteMemory c k w))) = Inr ms \<and> k \<notin> m_id ` set ms"
proof (cases "isFirebaseReady (firebase w)")
  case False
  then show ?thesis
    using assms(1,2)
    by (simp add: deleteMemory_eq getAllMemories_local log_def idb_delete_absent)
next
  case True
  define w' where "w' = snd (deleteMemory c k w)"
  define obj where "obj = (case (if \<not> get_throws c then remote_memories w else None) of
                             Some obj \<Rightarrow> obj | None \<Rightarrow> [])"
  have r: "isFirebaseReady (firebase w')"
    using True assms(1) by (simp add: w'_def deleteMemory_eq unsync_memory_eq log_def)
  obtain ms where ms: "fst (getAllMemories c' w') = Inr ms"
    "m_id ` set ms \<subseteq> (if get_throws c' then {}
                       else case remote_memories w' of
                              None \<Rightarrow> {} | Some obj \<Rightarrow> m_id ` snd ` set obj)"
    using getAllMemories_ids [OF r assms(2)] by blast
  have "k \<notin> m_id ` set ms"
  proof (cases "get_throws c'")
    case True
    then show ?thesis using ms(2) by simp
  next
    case False
    note reads = False
    show ?thesis
    proof (cases "set_throws c")
      case True
      have "remote_memories w' = remote_memories w"
        using True \<open>isFirebaseReady (firebase w)\<close> assms(1)
        by (simp add: w'_def deleteMemory_eq unsync_memory_eq log_def remote_memories_def)
      moreover have "k \<notin> m_id ` set (items_of (remote_memories w))"
        using assms(3) True reads \<open>isFirebaseReady (firebase w)\<close> by simp
      ultimately show ?thesis
        using ms(2) reads
        by (auto simp: items_of_def entries_of_def split: option.splits)
    next
      case False
      have "remote_memories w' = Some (AList.delete k obj)"
        using \<open>isFirebaseReady (firebase w)\<close> assms(1) False
        by (simp add: w'_def obj_def deleteMemory_eq unsync_memory_eq log_def
            remote_memories_def update_conv')
      moreover have "k \<notin> m_id ` snd ` set (AList.delete k obj)"
      proof (cases "get_throws c")
        case True
        then show ?thesis by (simp add: obj_def)
      next
        case False
        then show ?thesis
          using keyed_delete_ids [OF assms(4), of k] by (simp add: obj_def)
      qed
      ultimately show ?thesis
        using ms(2) reads by auto
    qed
  qed
  with ms(1) show ?thesis unfolding w'_def by blast
qed

lemma deleteTodo_then_getAll:
  assumes "\<not> idb_rejects c" "\<not> idb_rejects c'"
    and "isFirebaseReady (firebase w) \<and> \<not> get_throws c' \<and> set_throws c
           \<longrightarrow> k \<notin> t_id ` set (items_of (remote_todos w))"
    and "keyed_by_id t_id (remote_todos w)"
  shows "\<exists>ts. fst (getAllTodos c' (snd (deleteTodo c k w))) = Inr ts \<and> k \<notin> t_id ` set ts"
proof (cases "isFirebaseReady (firebase w)")
  case False
  then show ?thesis
    using assms(1,2)
    by (simp add: deleteTodo_eq getAllTodos_local log_def idb_delete_absent)
next
  case True
  define w' where "w' = snd (deleteTodo c k w)"
  define obj where "obj = (case (if \<not> get_throws c then remote_todos w else None) of
                             Some obj \<Rightarrow> obj | None \<Rightarrow> [])"
  have r: "isFirebaseReady (firebase w')"
    using True assms(1) by (simp add: w'_def deleteTodo_eq unsync_todo_eq log_def)
  obtain ts where ts: "fst (getAllTodos c' w') = Inr ts"
    "t_id ` set ts \<subseteq> (if get_throws c' then {}
                       else case remote_todos w' of
                              None \<Rightarrow> {} | Some obj \<Rightarrow> t_id ` snd ` set obj)"
    using getAllTodos_ids [OF r assms(2)] by blast
  have "k \<notin> t_id ` set ts"
  proof (cases "get_throws c'")
    case True
    then show ?thesis using ts(2) by simp
  next
    case False
    note reads = False
    show ?thesis
    proof (cases "set_throws c")
      case True
      have "remote_todos w' = remote_todos w"
        using True \<open>isFirebaseReady (firebase w)\<close> assms(1)
        by (simp add: w'_def deleteTodo_eq unsync_todo_eq log_def remote_todos_def)
      moreover have "k \<notin> t_id ` set (items_of (remote_todos w))"
        using assms(3) True reads \<open>isFirebaseReady (firebase w)\<close> by simp
      ultimately show ?thesis
        using ts(2) reads
        by (auto simp: items_of_def entries_of_def split: option.splits)
    next
      case False
      have "remote_todos w' = Some (AList.delete k obj)"
        using \<open>isFirebaseReady (firebase w)\<close> assms(1) False
        by (simp add: w'_def obj_def deleteTodo_eq unsync_todo_eq log_def
            remote_todos_def update_conv')
      moreover have "k \<notin> t_id ` snd ` set (AList.delete k obj)"
      proof (cases "get_throws c")
        case True
        then show ?thesis by (simp add: obj_def)
      next
        case False
        then show ?thesis
          using keyed_delete_ids [OF assms(4), of k] by (simp add: obj_def)
      qed
      ultimately show ?thesis
        using ts(2) reads by auto
    qed
  qed
  with ts(1) show ?thesis unfolding w'_def by blast
qed

text \<open>
  C7 says that once Delete of an id has completed, a Read-all of that collection
  returns no item of that id, whether the remote store is reachable or not. A
  Read-all that reads the remote collection returns what it finds there, and Delete
  swallows a failure of its remote write: on a device whose writes to the remote store
  fail while its reads work, Delete of the memory \<open>m1\<close> completes and removes the local
  record, the remote collection keeps its entry, and the Read-all that follows
  returns \<open>m1\<close> again; so does a Read-all with the remote store reachable after a
  Delete of the todo \<open>t1\<close> made while it was not.
\<close>

theorem delete_unsynced_then_getAll_returns_item:
  "\<not> idb_rejects ex_write_fails \<and> isFirebaseReady (firebase ex_stale)
   \<and> \<not> get_throws ex_write_fails \<and> set_throws ex_write_fails
   \<and> keyed_by_id m_id (remote_memories ex_stale) \<and> keyed_by_id t_id (remote_todos ex_stale)
   \<and> fst (deleteMemory ex_write_fails ''m1'' ex_stale) = Inr ()
   \<and> idb_memories (snd (deleteMemory ex_write_fails ''m1'' ex_stale)) = []
   \<and> fst (getAllMemories ex_write_fails (snd (deleteMemory ex_write_fails ''m1'' ex_stale)))
       = Inr [ex_photo_remote, ex_clip]
   \<and> m_id ex_photo_remote = ''m1''
   \<and> fst (deleteTodo ex_offline ''t1'' ex_stale) = Inr ()
   \<and> idb_todos (snd (deleteTodo ex_offline ''t1'' ex_stale)) = [ex_todo2]
   \<and> fst (getAllTodos ex_online (snd (deleteTodo ex_offline ''t1'' ex_stale)))
       = Inr [ex_todo_remote]
   \<and> t_id ex_todo_remote = ''t1''"
  by code_simp

text \<open>
  C7, for the cases in which it holds. Once Delete of an id has completed, the local
  store holds no record of that id and a Read-all of that collection returns a list
  with no item of that id, provided that, if the Read-all reads the remote collection,
  Delete's write to the remote store went through or the remote collection held no
  item of that id (the remote collection being keyed by id, and nothing else writing
  in between). That covers the remote store reachable during both calls, the adapter
  not ready, the remote store not reachable during the Read-all whatever it was
  during Delete, and the item that never reached the remote store.
\<close>

theorem delete_then_getAll_excludes:
  assumes "\<not> idb_rejects c" and "\<not> idb_rejects c'"
    and "isFirebaseReady (firebase w) \<and> \<not> get_throws c' \<and> set_throws c
           \<longrightarrow> k \<notin> m_id ` set (items_of (remote_memories w))
               \<and> k \<notin> t_id ` set (items_of (remote_todos w))"
    and "keyed_by_id m_id (remote_memories w)" and "keyed_by_id t_id (remote_todos w)"
  shows "fst (deleteMemory c k w) = Inr ()
       \<and> k \<notin> m_id ` set (idb_memories (snd (deleteMemory c k w)))
       \<and> (\<exists>ms. fst (getAllMemories c' (snd (deleteMemory c k w))) = Inr ms
                \<and> k \<notin> m_id ` set ms)
       \<and> fst (deleteTodo c k w) = Inr ()
       \<and> k \<notin> t_id ` set (idb_todos (snd (deleteTodo c k w)))
       \<and> (\<exists>ts. fst (getAllTodos c' (snd (deleteTodo c k w))) = Inr ts
                \<and> k \<notin> t_id ` set ts)"
proof (intro conjI)
  show "fst (deleteMemory c k w) = Inr ()" and "fst (deleteTodo c k w) = Inr ()"
    using assms(1) by (simp_all add: deleteMemory_eq deleteTodo_eq)
  show "k \<notin> m_id ` set (idb_memories (snd (deleteMemory c k w)))"
    using assms(1) idb_delete_absent [of k m_id "idb_memories w"]
    by (simp add: deleteMemory_eq unsync_memory_eq log_def)
  show "k \<notin> t_id ` set (idb_todos (snd (deleteTodo c k w)))"
    using assms(1) idb_delete_absent [of k t_id "idb_todos w"]
    by (simp add: deleteTodo_eq unsync_todo_eq log_def)
  show "\<exists>ms. fst (getAllMemories c' (snd (deleteMemory c k w))) = Inr ms \<and> k \<notin> m_id ` set ms"
    using assms(3) by (intro deleteMemory_then_getAll [OF assms(1,2) _ assms(4)]) simp
  show "\<exists>ts. fst (getAllTodos c' (snd (deleteTodo c k w))) = Inr ts \<and> k \<notin> t_id ` set ts"
    using assms(3) by (intro deleteTodo_then_getAll [OF assms(1,2) _ assms(5)]) simp
qed

theorem delete_then_getAll_excludes_witness:
  "\<not> idb_rejects ex_online \<and> \<not> idb_rejects ex_offline \<and> \<not> idb_rejects ex_write_fails
   \<and> isFirebaseReady (firebase ex_stale) \<and> isFirebaseReady (firebase ex_shared_todos)
   \<and> \<not> get_throws ex_online \<and> \<not> set_throws ex_online
   \<and> \<not> isFirebaseReady (firebase ex_unconfigured) \<and> get_throws ex_offline
   \<and> \<not> get_throws ex_write_fails \<and> set_throws ex_write_fails
   \<and> ''t2'' \<notin> m_id ` set (items_of (remote_memories ex_stale))
   \<and> ''t2'' \<notin> t_id ` set (items_of (remote_todos ex_stale))
   \<and> keyed_by_id m_id (remote_memories ex_stale) \<and> keyed_by_id t_id (remote_todos ex_stale)
   \<and> keyed_by_id m_id (remote_memories ex_shared_todos)
   \<and> keyed_by_id t_id (remote_todos ex_shared_todos)
   \<and> keyed_by_id m_id (remote_memories ex_unconfigured)
   \<and> keyed_by_id t_id (remote_todos ex_unconfigured)
   \<and> fst (getAllMemories ex_online (snd (deleteMemory ex_online ''m1'' ex_stale)))
       = Inr [ex_clip]
   \<and> fst (getAllTodos ex_online (snd (deleteTodo ex_online ''t1'' ex_shared_todos)))
       = Inr [ex_todo2]
   \<and> fst (getAllMemories ex_offline (snd (deleteMemory ex_offline ''m1'' ex_unconfigured)))
       = Inr [ex_clip]
   \<and> fst (getAllTodos ex_offline (snd (deleteTodo ex_offline ''t1'' ex_unconfigured)))
       = Inr [ex_todo2]
   \<and> fst (getAllTodos ex_offline (snd (deleteTodo ex_online ''t1'' ex_shared_todos)))
       = Inr []
   \<and> idb_todos ex_stale = [ex_todo, ex_todo2] \<and> t_id ex_todo2 = ''t2''
   \<and> fst (getAllTodos ex_write_fails (snd (deleteTodo ex_write_fails ''t2'' ex_stale)))
       = Inr [ex_todo_remote]
   \<and> (\<exists>ms. fst (getAllMemories ex_online (snd (deleteMemory ex_online ''m1'' ex_stale))) = Inr ms
           \<and> ''m1'' \<notin> m_id ` set ms)
   \<and> (\<exists>ts. fst (getAllTodos ex_online (snd (deleteTodo ex_online ''t1'' ex_shared_todos)))
             = Inr ts
           \<and> ''t1'' \<notin> t_id ` set ts)
   \<and> (\<exists>ms. fst (getAllMemories ex_offline (snd (deleteMemory ex_offline ''m1'' ex_unconfigured)))
             = Inr ms
           \<and> ''m1'' \<notin> m_id ` set ms)
   \<and> (\<exists>ts. fst (getAllTodos ex_offline (snd (deleteTodo ex_online ''t1'' ex_shared_todos)))
             = Inr ts
           \<and> ''t1'' \<notin> t_id ` set ts)
   \<and> (\<exists>ts. fst (getAllTodos ex_write_fails (snd (deleteTodo ex_write_fails ''t2'' ex_stale)))
             = Inr ts
           \<and> ''t2'' \<notin> t_id ` set ts)"
proof -
  have h: "\<not> idb_rejects ex_online" "\<not> idb_rejects ex_offline"
    "\<not> get_throws ex_online" "\<not> set_throws ex_online" "get_throws ex_offline"
    "\<not> idb_rejects ex_write_fails" "\<not> get_throws ex_write_fails" "set_throws ex_write_fails"
    by (simp_all add: ex_online_def ex_offline_def ex_write_fails_def)
  have f: "isFirebaseReady (firebase ex_stale)" "isFirebaseReady (firebase ex_shared_todos)"
    "\<not> isFirebaseReady (firebase ex_unconfigured)"
    by (simp_all add: ex_stale_def ex_shared_todos_def ex_unconfigured_def ex_ready_def
        isFirebaseReady_def)
  have k: "keyed_by_id m_id (remote_memories ex_stale)" "keyed_by_id t_id (remote_todos ex_stale)"
    "keyed_by_id m_id (remote_memories ex_shared_todos)"
    "keyed_by_id t_id (remote_todos ex_shared_todos)"
    "keyed_by_id m_id (remote_memories ex_unconfigured)"
    "keyed_by_id t_id (remote_todos ex_unconfigured)"
    by (simp_all add: keyed_by_id_def remote_memories_def remote_todos_def ex_stale_def
        ex_shared_todos_def ex_unconfigured_def getSharedPath_def ex_photo_remote_def
        ex_clip_def ex_todo_remote_def ex_todo2_def)
  have n: "''t2'' \<notin> m_id ` set (items_of (remote_memories ex_stale))"
    "''t2'' \<notin> t_id ` set (items_of (remote_todos ex_stale))"
    by (simp_all add: items_of_def entries_of_def remote_memories_def remote_todos_def
        ex_stale_def getSharedPath_def ex_photo_remote_def ex_clip_def ex_todo_remote_def)
  have e: "fst (getAllMemories ex_online (snd (deleteMemory ex_online ''m1'' ex_stale)))
             = Inr [ex_clip]"
    "fst (getAllTodos ex_online (snd (deleteTodo ex_online ''t1'' ex_shared_todos)))
       = Inr [ex_todo2]"
    "fst (getAllMemories ex_offline (snd (deleteMemory ex_offline ''m1'' ex_unconfigured)))
       = Inr [ex_clip]"
    "fst (getAllTodos ex_offline (snd (deleteTodo ex_offline ''t1'' ex_unconfigured)))
       = Inr [ex_todo2]"
    "fst (getAllTodos ex_offline (snd (deleteTodo ex_online ''t1'' ex_shared_todos)))
       = Inr []"
    "fst (getAllTodos ex_write_fails (snd (deleteTodo ex_write_fails ''t2'' ex_stale)))
       = Inr [ex_todo_remote]"
    by code_simp+
  have l: "idb_todos ex_stale = [ex_todo, ex_todo2]" "t_id ex_todo2 = ''t2''"
    by (simp_all add: ex_stale_def ex_todo2_def)
  have a: "isFirebaseReady (firebase ex_stale) \<and> \<not> get_throws ex_online \<and> set_throws ex_online
             \<longrightarrow> ''m1'' \<notin> m_id ` set (items_of (remote_memories ex_stale))
                 \<and> ''m1'' \<notin> t_id ` set (items_of (remote_todos ex_stale))"
    "isFirebaseReady (firebase ex_shared_todos) \<and> \<not> get_throws ex_online \<and> set_throws ex_online
             \<longrightarrow> ''t1'' \<notin> m_id ` set (items_of (remote_memories ex_shared_todos))
                 \<and> ''t1'' \<notin> t_id ` set (items_of (remote_todos ex_shared_todos))"
    "isFirebaseReady (firebase ex_unconfigured) \<and> \<not> get_throws ex_offline
               \<and> set_throws ex_offline
             \<longrightarrow> ''m1'' \<notin> m_id ` set (items_of (remote_memories ex_unconfigured))
                 \<and> ''m1'' \<notin> t_id ` set (items_of (remote_todos ex_unconfigured))"
    "isFirebaseReady (firebase ex_shared_todos) \<and> \<not> get_throws ex_offline
               \<and> set_throws ex_online
             \<longrightarrow> ''t1'' \<notin> m_id ` set (items_of (remote_memories ex_shared_todos))
                 \<and> ''t1'' \<notin> t_id ` set (items_of (remote_todos ex_shared_todos))"
    "isFirebaseReady (firebase ex_stale) \<and> \<not> get_throws ex_write_fails
               \<and> set_throws ex_write_fails
             \<longrightarrow> ''t2'' \<notin> m_id ` set (items_of (remote_memories ex_stale))
                 \<and> ''t2'' \<notin> t_id ` set (items_of (remote_todos ex_stale))"
    using h f n by simp_all
  note T1 = delete_then_getAll_excludes [OF h(1) h(1) a(1) k(1,2)]
  note T2 = delete_then_getAll_excludes [OF h(1) h(1) a(2) k(3,4)]
  note T3 = delete_then_getAll_excludes [OF h(2) h(2) a(3) k(5,6)]
  note T4 = delete_then_getAll_excludes [OF h(1) h(2) a(4) k(3,4)]
  note T5 = delete_then_getAll_excludes [OF h(6) h(6) a(5) k(1,2)]
  have x: "\<exists>ms. fst (getAllMemories ex_online (snd (deleteMemory ex_online ''m1'' ex_stale)))
                  = Inr ms \<and> ''m1'' \<notin> m_id ` set ms"
    "\<exists>ts. fst (getAllTodos ex_online (snd (deleteTodo ex_online ''t1'' ex_shared_todos)))
             = Inr ts \<and> ''t1'' \<notin> t_id ` set ts"
    "\<exists>ms. fst (getAllMemories ex_offline (snd (deleteMemory ex_offline ''m1'' ex_unconfigured)))
             = Inr ms \<and> ''m1'' \<notin> m_id ` set ms"
    "\<exists>ts. fst (getAllTodos ex_offline (snd (deleteTodo ex_online ''t1'' ex_shared_todos)))
             = Inr ts \<and> ''t1'' \<notin> t_id ` set ts"
    "\<exists>ts. fst (getAllTodos ex_write_fails (snd (deleteTodo ex_write_fails ''t2'' ex_stale)))
             = Inr ts \<and> ''t2'' \<notin> t_id ` set ts"
    using T1 T2 T3 T4 T5 by blast+
  from h f k n e l x show ?thesis by blast
qed

section \<open>Save is idempotent\<close>

lemma saveTodo_twice:
  "snd (saveTodo c todo (snd (saveTodo c todo w)))\<lparr>trace := []\<rparr>
     = snd (saveTodo c todo w)\<lparr>trace := []\<rparr>"
  by (simp add: saveTodo_eq sync_todo_eq log_def idb_put_idem remote_todos_def update_conv'
      js_assign_idem)

lemma saveMemory_snd:
  "snd (saveMemory c memory w) =
     (if idb_rejects c then log [IdbPut STORE_MEMORIES (m_id memory)] w
      else
        (let w1 = log [IdbPut STORE_MEMORIES (m_id memory)]
                    (w\<lparr>idb_memories := idb_put m_id memory (idb_memories w)\<rparr>)
         in if isFirebaseReady (firebase w) then
              (if prefix ''data:'' (m_url memory) then
                 (case uploadMedia c (firebase w) (m_url memory) (m_id memory) (m_type memory) of
                    Some u \<Rightarrow>
                      if u \<noteq> []
                      then sync_memory c (m_id memory) (memory\<lparr>m_url := u\<rparr>)
                             (log [UploadMedia (m_id memory)] w1)
                      else log [UploadMedia (m_id memory)] w1
                  | None \<Rightarrow> log [UploadMedia (m_id memory)] w1)
               else sync_memory c (m_id memory) memory w1)
            else w1))"
  by (simp add: saveMemory_def Let_def log_def split: option.splits)

lemma saveMemory_firebase: "firebase (snd (saveMemory c memory w)) = firebase w"
  by (simp add: saveMemory_snd sync_memory_eq log_def Let_def split: option.splits)

lemma saveMemory_twice:
  "snd (saveMemory c memory (snd (saveMemory c memory w)))\<lparr>trace := []\<rparr>
     = snd (saveMemory c memory w)\<lparr>trace := []\<rparr>"
proof -
  define w1 where "w1 = snd (saveMemory c memory w)"
  have f: "firebase w1 = firebase w" by (simp add: w1_def saveMemory_firebase)
  show ?thesis
    unfolding w1_def [symmetric]
    apply (subst saveMemory_snd)
    apply (simp only: f)
    apply (simp add: w1_def saveMemory_snd sync_memory_eq log_def idb_put_idem Let_def
        remote_memories_def update_conv' js_assign_idem split: option.splits)
    done
qed

text \<open>
  C8. Saving the same item twice in a row, under the same conditions (the upload of
  inline data, if any, ending with the same URL both times), leaves the local stores
  and the hosted database exactly as saving it once does (the second Save changes
  nothing but the trace of calls) and resolves with the same value; and in a
  local store whose ids were unique, ids stay unique and the one record with the id of
  the item is the item itself.
\<close>

theorem save_twice_same_state:
  "snd (saveTodo c todo (snd (saveTodo c todo w)))\<lparr>trace := []\<rparr>
     = snd (saveTodo c todo w)\<lparr>trace := []\<rparr>
   \<and> fst (saveTodo c todo (snd (saveTodo c todo w))) = fst (saveTodo c todo w)
   \<and> snd (saveMemory c memory (snd (saveMemory c memory w)))\<lparr>trace := []\<rparr>
     = snd (saveMemory c memory w)\<lparr>trace := []\<rparr>
   \<and> fst (saveMemory c memory (snd (saveMemory c memory w))) = fst (saveMemory c memory w)
   \<and> (\<not> idb_rejects c \<and> distinct (map t_id (idb_todos w)) \<longrightarrow>
        distinct (map t_id (idb_todos (snd (saveTodo c todo w))))
      \<and> filter (\<lambda>x. t_id x = t_id todo) (idb_todos (snd (saveTodo c todo w))) = [todo])
   \<and> (\<not> idb_rejects c \<and> distinct (map m_id (idb_memories w)) \<longrightarrow>
        distinct (map m_id (idb_memories (snd (saveMemory c memory w))))
      \<and> filter (\<lambda>x. m_id x = m_id memory) (idb_memories (snd (saveMemory c memory w)))
          = [memory])"
proof (intro conjI impI)
  show "snd (saveTodo c todo (snd (saveTodo c todo w)))\<lparr>trace := []\<rparr>
          = snd (saveTodo c todo w)\<lparr>trace := []\<rparr>"
    by (rule saveTodo_twice)
  show "fst (saveTodo c todo (snd (saveTodo c todo w))) = fst (saveTodo c todo w)"
    by (simp add: saveTodo_eq)
  show "snd (saveMemory c memory (snd (saveMemory c memory w)))\<lparr>trace := []\<rparr>
          = snd (saveMemory c memory w)\<lparr>trace := []\<rparr>"
    by (rule saveMemory_twice)
  show "fst (saveMemory c memory (snd (saveMemory c memory w))) = fst (saveMemory c memory w)"
    by (cases "idb_rejects c") (simp_all add: saveMemory_local, simp add: saveMemory_def)
next
  assume a: "\<not> idb_rejects c \<and> distinct (map t_id (idb_todos w))"
  have l: "idb_todos (snd (saveTodo c todo w)) = idb_put t_id todo (idb_todos w)"
    using a by (simp add: saveTodo_eq sync_todo_eq log_def)
  show "distinct (map t_id (idb_todos (snd (saveTodo c todo w))))"
    unfolding l using a by (simp add: distinct_idb_put)
  show "filter (\<lambda>x. t_id x = t_id todo) (idb_todos (snd (saveTodo c todo w))) = [todo]"
    unfolding l using a by (simp add: idb_put_single)
next
  assume a: "\<not> idb_rejects c \<and> distinct (map m_id (idb_memories w))"
  have l: "idb_memories (snd (saveMemory c memory w)) = idb_put m_id memory (idb_memories w)"
    using a saveMemory_local by simp
  show "distinct (map m_id (idb_memories (snd (saveMemory c memory w))))"
    unfolding l using a by (simp add: distinct_idb_put)
  show "filter (\<lambda>x. m_id x = m_id memory) (idb_memories (snd (saveMemory c memory w)))
          = [memory]"
    unfolding l using a by (simp add: idb_put_single)
qed

theorem save_twice_same_state_witness:
  "\<not> idb_rejects ex_online \<and> distinct (map t_id (idb_todos ex_stale))
   \<and> distinct (map m_id (idb_memories ex_stale))
   \<and> snd (saveTodo ex_online ex_todo_remote (snd (saveTodo ex_online ex_todo_remote ex_stale)))
        \<lparr>trace := []\<rparr>
       = snd (saveTodo ex_online ex_todo_remote ex_stale)\<lparr>trace := []\<rparr>
   \<and> snd (saveMemory ex_online ex_photo (snd (saveMemory ex_online ex_photo ex_stale)))
        \<lparr>trace := []\<rparr>
       = snd (saveMemory ex_online ex_photo ex_stale)\<lparr>trace := []\<rparr>
   \<and> filter (\<lambda>x. t_id x = ''t1'') (idb_todos (snd (saveTodo ex_online ex_todo_remote ex_stale)))
       = [ex_todo_remote]
   \<and> filter (\<lambda>x. m_id x = ''m1'') (idb_memories (snd (saveMemory ex_online ex_photo ex_stale)))
       = [ex_photo]"
proof -
  have h: "\<not> idb_rejects ex_online" "distinct (map t_id (idb_todos ex_stale))"
    "distinct (map m_id (idb_memories ex_stale))"
    by (simp_all add: ex_online_def ex_stale_def ex_todo_def ex_todo2_def)
  have v: "t_id ex_todo_remote = ''t1''" "m_id ex_photo = ''m1''"
    by (simp_all add: ex_todo_remote_def ex_photo_def)
  from save_twice_same_state [of ex_online ex_todo_remote ex_stale ex_photo] h v
  show ?thesis by simp
qed

section \<open>Properties of the live subscription\<close>

lemma memoriesListener_empty_snapshot:
  assumes "\<not> idb_rejects c" and "data = None \<or> data = Some []"
  shows "memoriesListener c data w =
           (Inr (), log (IdbGetAll STORE_MEMORIES
                          # map (\<lambda>m. IdbDelete STORE_MEMORIES (m_id m)) (idb_memories w)
                          @ [OnMemoriesChange []])
                      (w\<lparr>idb_memories := []\<rparr>))"
  using assms by (auto simp: memoriesListener_def Let_def delete_all_self)

lemma todosListener_empty_snapshot:
  assumes "data = None \<or> data = Some []"
  shows "todosListener c data w = log [OnTodosChange []] w"
  using assms by (auto simp: todosListener_def put_all_def log_def)

text \<open>
  C3 says that for each collection an empty or \<open>null\<close> snapshot makes the live
  subscription delete all local items of the collection and call the change callback
  with the empty list. The callback on \<open>memories\<close> does so (lemma
  \<open>memoriesListener_empty_snapshot\<close>). The callback on \<open>todos\<close> only calls
  \<open>onTodosChange([])\<close>: on a device holding two todos, a \<open>null\<close> (or empty) snapshot
  leaves both in the local store, while the same device's two memories are deleted by
  a \<open>null\<close> snapshot on \<open>memories\<close>.
\<close>

theorem todosListener_null_keeps_local:
  "idb_todos (todosListener ex_online None ex_local_only) = [ex_todo, ex_todo2]
   \<and> trace (todosListener ex_online None ex_local_only) = [OnTodosChange []]
   \<and> idb_todos (todosListener ex_online (Some []) ex_local_only) = [ex_todo, ex_todo2]
   \<and> idb_memories (snd (memoriesListener ex_online None ex_local_only)) = []
   \<and> trace (snd (memoriesListener ex_online None ex_local_only))
       = [IdbGetAll STORE_MEMORIES, IdbDelete STORE_MEMORIES ''m1'',
          IdbDelete STORE_MEMORIES ''m2'', OnMemoriesChange []]"
  by (simp add: todosListener_def memoriesListener_def log_def ex_local_only_def ex_online_def
      put_all_def delete_all_def idb_delete_def ex_photo_def ex_clip_def Let_def)

section \<open>Properties of restoring a backup\<close>

text \<open>
  Whatever the order of completions, a document whose \<open>memories\<close> or \<open>todos\<close> field is
  missing (or falsy) is rejected with the alert of failure before any call is made, and
  a document that passes this test changes nothing when the confirmation is declined.
\<close>

lemma handleImportData_rejects_missing_field:
  assumes "b_memories d = Falsy \<or> b_todos d = Falsy"
  shows "handleImportData c confirmed scheduler (Json d) w = (AlertFailed, w)"
  using assms by (auto simp: handleImportData_def)

lemma handleImportData_declined:
  assumes "b_memories d \<noteq> Falsy" and "b_todos d \<noteq> Falsy"
  shows "handleImportData c False scheduler (Json d) w = (Cancelled, w)"
  using assms by (simp add: handleImportData_def)

text \<open>
  When the calls that \<open>Promise.all\<close> starts together take effect one after another
  (\<open>in_turn\<close>), restoring does what the comments of the handler say. The complete
  backup, restored on the device with older local copies: the local collections hold
  the imported items, the remote todos are the imported todo, the remote memories are
  the imported memories (the photo with the uploaded URL in place of its inline data),
  and the avatar is saved. The backup with no items, restored on the device with two
  shared todos, leaves no todo in the remote collection; the backup with two todos,
  restored on the blank device, leaves both there.
\<close>

lemma handleImportData_in_turn:
  "fst (handleImportData ex_online True in_turn (Json ex_backup) ex_stale) = AlertRestored
   \<and> idb_memories (snd (handleImportData ex_online True in_turn (Json ex_backup) ex_stale))
       = [ex_photo, ex_clip]
   \<and> idb_todos (snd (handleImportData ex_online True in_turn (Json ex_backup) ex_stale))
       = [ex_todo2]
   \<and> items_of (remote_memories
                  (snd (handleImportData ex_online True in_turn (Json ex_backup) ex_stale)))
       = [ex_photo\<lparr>m_url := ''https://storage.example/memories/m1.png''\<rparr>, ex_clip]
   \<and> items_of (remote_todos
                  (snd (handleImportData ex_online True in_turn (Json ex_backup) ex_stale)))
       = [ex_todo2]
   \<and> idb_settings (snd (handleImportData ex_online True in_turn (Json ex_backup) ex_stale))
       = [\<lparr>s_key = ''avatar_jerry'', s_value = ''data:image/png;base64,JJJJ''\<rparr>]
   \<and> fst (handleImportData ex_online True in_turn (Json ex_empty_backup) ex_shared_todos)
       = AlertRestored
   \<and> items_of (remote_todos (snd (handleImportData ex_online True in_turn
                                     (Json ex_empty_backup) ex_shared_todos))) = []
   \<and> fst (handleImportData ex_online True in_turn (Json ex_backup_two_todos) ex_blank)
       = AlertRestored
   \<and> items_of (remote_todos (snd (handleImportData ex_online True in_turn
                                     (Json ex_backup_two_todos) ex_blank)))
       = [ex_todo, ex_todo2]"
  by code_simp

text \<open>
  C9 says that import rejects a document lacking \<open>memories\<close> or \<open>todos\<close> before anything
  is deleted or written, and that an accepted and confirmed import first deletes every
  current local and (if reachable) remote item of both collections and then writes
  exactly the imported items. The handler does the first. For the second it starts
  the \<open>deleteMemory\<close> and \<open>deleteTodo\<close> calls together and awaits them together, and
  then the \<open>saveMemory\<close> and \<open>saveTodo\<close> calls likewise, under the comments
  \<open>Clear existing data\<close> and \<open>Import new data\<close>; each call reads the whole remote
  collection and writes it back changed, and nothing keeps the read and the write of
  one call together. Let the calls run in step (\<open>in_step\<close>), the remote store
  reachable. On the device with two shared todos, restoring the backup with no items:
  both \<open>deleteTodo\<close> calls read the remote collection before either writes it back,
  each writes back what it read less its own item, and the later write restores the
  item the earlier call had removed; the handler alerts success, the local collection
  is empty, and one of the two todos is still in the remote collection. On the blank
  device, restoring the backup with two todos: both \<open>saveTodo\<close> calls read the empty
  collection and the later write replaces the earlier; the handler alerts success
  and the remote collection holds one of the two imported todos, so that the Read-all
  that follows returns that one alone and deletes the other from the local store.
\<close>

theorem handleImportData_in_step_loses_items:
  "b_memories ex_empty_backup = Array [] \<and> b_todos ex_empty_backup = Array []
   \<and> remote_reachable ex_online ex_shared_todos
   \<and> items_of (remote_todos ex_shared_todos) = [ex_todo_remote, ex_todo2]
   \<and> fst (handleImportData ex_online True in_step (Json ex_empty_backup) ex_shared_todos)
       = AlertRestored
   \<and> idb_todos (snd (handleImportData ex_online True in_step (Json ex_empty_backup)
                        ex_shared_todos)) = []
   \<and> items_of (remote_todos (snd (handleImportData ex_online True in_step (Json ex_empty_backup)
                                     ex_shared_todos))) = [ex_todo_remote]
   \<and> b_memories ex_backup_two_todos = Array []
   \<and> b_todos ex_backup_two_todos = Array [ex_todo, ex_todo2]
   \<and> remote_reachable ex_online ex_blank
   \<and> fst (handleImportData ex_online True in_step (Json ex_backup_two_todos) ex_blank)
       = AlertRestored
   \<and> idb_todos (snd (handleImportData ex_online True in_step (Json ex_backup_two_todos)
                        ex_blank)) = [ex_todo, ex_todo2]
   \<and> items_of (remote_todos (snd (handleImportData ex_online True in_step
                                     (Json ex_backup_two_todos) ex_blank))) = [ex_todo2]
   \<and> fst (getAllTodos ex_online (snd (handleImportData ex_online True in_step
                                         (Json ex_backup_two_todos) ex_blank)))
       = Inr [ex_todo2]
   \<and> idb_todos (snd (getAllTodos ex_online (snd (handleImportData ex_online True in_step
                                                    (Json ex_backup_two_todos) ex_blank))))
       = [ex_todo2]"
  by code_simp

text \<open>
  The test of the fields asks only whether they are truthy. A document whose
  \<open>memories\<close> field holds a piece of text passes it; once confirmed, every local and
  remote item is deleted, \<open>backupData.memories.map\<close> then throws, and the handler alerts
  the failure with both collections empty on both sides (here with the calls taking
  effect in turn).
\<close>

lemma handleImportData_not_an_array:
  "b_memories ex_backup_text_memories = Truthy_not_array
   \<and> b_todos ex_backup_text_memories = Array []
   \<and> idb_memories ex_stale = [ex_photo] \<and> idb_todos ex_stale = [ex_todo, ex_todo2]
   \<and> items_of (remote_memories ex_stale) = [ex_photo_remote, ex_clip]
   \<and> items_of (remote_todos ex_stale) = [ex_todo_remote]
   \<and> fst (handleImportData ex_online True in_turn (Json ex_backup_text_memories) ex_stale)
       = AlertFailed
   \<and> idb_memories (snd (handleImportData ex_online True in_turn
                           (Json ex_backup_text_memories) ex_stale)) = []
   \<and> idb_todos (snd (handleImportData ex_online True in_turn
                        (Json ex_backup_text_memories) ex_stale)) = []
   \<and> items_of (remote_memories (snd (handleImportData ex_online True in_turn
                                        (Json ex_backup_text_memories) ex_stale))) = []
   \<and> items_of (remote_todos (snd (handleImportData ex_online True in_turn
                                     (Json ex_backup_text_memories) ex_stale))) = []"
  by code_simp

end
